theory Spec2Isabelle
  imports Complex_Main "HOL-Library.AList" "HOL-Library.Sublist"
begin

section \<open>Python values, dictionaries and builtins\<close>

text \<open>
  The strategy that travels between the advisor, \<open>SafetyValidator\<close> and
  \<open>DecisionEngine\<close> is a plain Python \<open>dict\<close> with string keys. Its values are the
  scalars a decoded JSON object can hold. A dictionary is an association list in
  insertion order: \<open>map_of\<close> is the lookup, \<open>AList.update\<close> is item assignment (an
  existing key keeps its place, a new key goes to the end). Python floats are idealised
  as real numbers: rounding and infinities are outside the model, and so is \<open>nan\<close> but
  for the one case named below.
  Exceptions are values: a function that can raise returns \<open>error + 'a\<close>.
\<close>

datatype error = ValueError | TypeError | ZeroDivisionError | OverflowError | AttributeError

datatype pyval = PNone | PBool bool | PInt int | PFloat real | PStr string

type_synonym pydict = "(string \<times> pyval) list"

definition ebind :: "error + 'a \<Rightarrow> ('a \<Rightarrow> error + 'b) \<Rightarrow> error + 'b" where
  "ebind m f = (case m of Inl e \<Rightarrow> Inl e | Inr x \<Rightarrow> f x)"

definition dict_get :: "pydict \<Rightarrow> string \<Rightarrow> pyval \<Rightarrow> pyval" where
  \<comment> \<open>\<open>d.get(k, default)\<close>\<close>
  "dict_get d k dflt = (case map_of d k of None \<Rightarrow> dflt | Some v \<Rightarrow> v)"

definition dict_has :: "pydict \<Rightarrow> string \<Rightarrow> bool" where
  \<comment> \<open>\<open>k in d\<close>\<close>
  "dict_has d k = (map_of d k \<noteq> None)"

text \<open>
  Four builtins turn text into numbers or values into text: \<open>str\<close> on a dictionary,
  \<open>float\<close> and \<open>int\<close> on a string, and the format specification \<open>.Nf\<close> on a float.
  The code is parametric in them, so that what is proved for every \<open>builtins\<close> holds for
  CPython's. The one \<open>nan\<close> the model keeps is NumPy's mean of an empty array
  (\<open>npfloat\<close>); every comparison with it is false.
\<close>

datatype npfloat = Fin real | NaN

record builtins =
  str_of :: "pydict \<Rightarrow> string"
  float_of_str :: "string \<Rightarrow> real option"
  int_of_str :: "string \<Rightarrow> int option"
  format_f :: "nat \<Rightarrow> npfloat \<Rightarrow> string"

text \<open>
  An int is unbounded and a float is not: converting an int that rounds to \<open>2 ^ 1024\<close> or
  beyond raises \<open>OverflowError\<close>, in \<open>float(i)\<close> as in arithmetic with a float operand.
\<close>

definition FLOAT_INT_LIMIT :: int where
  "FLOAT_INT_LIMIT = 2 ^ 1024 - 2 ^ 970"

definition float_of_int :: "int \<Rightarrow> error + real" where
  "float_of_int i = (if \<bar>i\<bar> \<ge> FLOAT_INT_LIMIT then Inl OverflowError else Inr (real_of_int i))"

fun py_float :: "builtins \<Rightarrow> pyval \<Rightarrow> error + real" where
  "py_float b PNone = Inl TypeError"
| "py_float b (PBool t) = Inr (if t then 1 else 0)"
| "py_float b (PInt i) = float_of_int i"
| "py_float b (PFloat r) = Inr r"
| "py_float b (PStr s) = (case float_of_str b s of None \<Rightarrow> Inl ValueError | Some r \<Rightarrow> Inr r)"

fun py_int :: "builtins \<Rightarrow> pyval \<Rightarrow> error + int" where
  "py_int b PNone = Inl TypeError"
| "py_int b (PBool t) = Inr (if t then 1 else 0)"
| "py_int b (PInt i) = Inr i"
| "py_int b (PFloat r) = Inr (if 0 \<le> r then \<lfloor>r\<rfloor> else \<lceil>r\<rceil>)"
| "py_int b (PStr s) = (case int_of_str b s of None \<Rightarrow> Inl ValueError | Some i \<Rightarrow> Inr i)"

fun truthy :: "pyval \<Rightarrow> bool" where
  "truthy PNone = False"
| "truthy (PBool t) = t"
| "truthy (PInt i) = (i \<noteq> 0)"
| "truthy (PFloat r) = (r \<noteq> 0)"
| "truthy (PStr s) = (s \<noteq> [])"

definition lower_char :: "char \<Rightarrow> char" where
  "lower_char c =
     (case map_of (zip ''ABCDEFGHIJKLMNOPQRSTUVWXYZ'' ''abcdefghijklmnopqrstuvwxyz'') c of
        None \<Rightarrow> c | Some l \<Rightarrow> l)"

definition lower :: "string \<Rightarrow> string" where
  "lower s = map lower_char s"

fun contains :: "string \<Rightarrow> string \<Rightarrow> bool" where
  \<comment> \<open>\<open>t in s\<close> on strings\<close>
  "contains t [] = (t = [])"
| "contains t (c # cs) = (prefix t (c # cs) \<or> contains t cs)"

subsection \<open>One instance of the builtins, for evaluation on concrete dictionaries\<close>

text \<open>
  \<open>py_str\<close> renders a flat dictionary the way CPython's \<open>str\<close> does when keys and
  string values need no escaping and floats have a short decimal expansion
  (\<open>0.3\<close>, \<open>1.0\<close>, \<open>-40.0\<close>); \<open>parse_float\<close> and \<open>parse_int\<close> read plain decimal
  literals; \<open>format_fixed\<close> rounds the decimal value to \<open>n\<close> places.
\<close>

definition digit_char :: "nat \<Rightarrow> char" where
  "digit_char d = ''0123456789'' ! d"

function show_nat :: "nat \<Rightarrow> string" where
  "show_nat n = (if n < 10 then [digit_char n] else show_nat (n div 10) @ [digit_char (n mod 10)])"
  by pat_completeness auto
termination
  by (relation "measure id") auto

declare show_nat.simps [simp del]

definition show_int :: "int \<Rightarrow> string" where
  "show_int i = (if i < 0 then ''-'' @ show_nat (nat (- i)) else show_nat (nat i))"

fun frac_digits :: "nat \<Rightarrow> real \<Rightarrow> string" where
  "frac_digits 0 f = []"
| "frac_digits (Suc n) f =
     (let d = nat \<lfloor>f * 10\<rfloor>; r = f * 10 - real d
      in digit_char d # (if r = 0 then [] else frac_digits n r))"

definition repr_float :: "real \<Rightarrow> string" where
  "repr_float r =
     (let a = \<bar>r\<bar>; whole = nat \<lfloor>a\<rfloor>
      in (if r < 0 then ''-'' else []) @ show_nat whole @ ''.'' @ frac_digits 17 (a - real whole))"

definition repr_str :: "string \<Rightarrow> string" where
  "repr_str s = [CHR 0x27] @ s @ [CHR 0x27]"

fun repr :: "pyval \<Rightarrow> string" where
  "repr PNone = ''None''"
| "repr (PBool t) = (if t then ''True'' else ''False'')"
| "repr (PInt i) = show_int i"
| "repr (PFloat r) = repr_float r"
| "repr (PStr s) = repr_str s"

fun join :: "string \<Rightarrow> string list \<Rightarrow> string" where
  "join sep [] = []"
| "join sep [x] = x"
| "join sep (x # y # ys) = x @ sep @ join sep (y # ys)"

definition py_str :: "pydict \<Rightarrow> string" where
  "py_str d = ''{'' @ join '', '' (map (\<lambda>(k, v). repr_str k @ '': '' @ repr v) d) @ ''}''"

definition digit_val :: "char \<Rightarrow> nat option" where
  "digit_val c = map_of (zip ''0123456789'' [0, 1, 2, 3, 4, 5, 6, 7, 8, 9]) c"

fun digits_val :: "nat \<Rightarrow> string \<Rightarrow> nat option" where
  "digits_val acc [] = Some acc"
| "digits_val acc (c # cs) =
     (case digit_val c of None \<Rightarrow> None | Some d \<Rightarrow> digits_val (10 * acc + d) cs)"

fun split_sign :: "string \<Rightarrow> bool \<times> string" where
  "split_sign [] = (False, [])"
| "split_sign (c # cs) =
     (if c = CHR ''-'' then (True, cs) else if c = CHR ''+'' then (False, cs) else (False, c # cs))"

definition parse_int :: "string \<Rightarrow> int option" where
  "parse_int s =
     (let (neg, body) = split_sign s
      in if body = [] then None
         else map_option (\<lambda>n. if neg then - int n else int n) (digits_val 0 body))"

definition parse_float :: "string \<Rightarrow> real option" where
  "parse_float s =
     (let (neg, body) = split_sign s;
          whole = takeWhile (\<lambda>c. c \<noteq> CHR ''.'') body;
          rest = dropWhile (\<lambda>c. c \<noteq> CHR ''.'') body;
          frac = (case rest of [] \<Rightarrow> [] | _ # fs \<Rightarrow> fs)
      in if whole = [] \<and> frac = [] then None
         else (case (digits_val 0 whole, digits_val 0 frac) of
                 (Some w, Some f) \<Rightarrow>
                   Some ((if neg then - 1 else 1) * (real w + real f / 10 ^ length frac))
               | _ \<Rightarrow> None))"

definition format_fixed :: "nat \<Rightarrow> npfloat \<Rightarrow> string" where
  "format_fixed n x =
     (case x of
        NaN \<Rightarrow> ''nan''
      | Fin r \<Rightarrow>
          (let q = nat (round (\<bar>r\<bar> * 10 ^ n)); frac = show_nat (q mod 10 ^ n)
           in (if r < 0 \<and> q \<noteq> 0 then ''-'' else []) @ show_nat (q div 10 ^ n)
              @ (if n = 0 then [] else ''.'' @ replicate (n - length frac) (CHR ''0'') @ frac)))"

definition py :: builtins where
  "py = \<lparr>str_of = py_str, float_of_str = parse_float, int_of_str = parse_int,
          format_f = format_fixed\<rparr>"

section \<open>SafetyValidator (src/llm/safety.py)\<close>

definition MAX_NOISE_SUPPRESSION :: real where "MAX_NOISE_SUPPRESSION = 0.95"
definition MIN_NOISE_SUPPRESSION :: real where "MIN_NOISE_SUPPRESSION = 0.0"
definition MAX_SPEECH_ENHANCEMENT :: real where "MAX_SPEECH_ENHANCEMENT = 0.9"
definition MIN_SPEECH_ENHANCEMENT :: real where "MIN_SPEECH_ENHANCEMENT = 0.0"
definition MAX_COMPRESSION_RATIO :: real where "MAX_COMPRESSION_RATIO = 8.0"
definition MIN_COMPRESSION_RATIO :: real where "MIN_COMPRESSION_RATIO = 1.0"
definition MAX_HIGH_FREQ_BOOST :: real where "MAX_HIGH_FREQ_BOOST = 10.0"
definition MIN_HIGH_FREQ_BOOST :: real where "MIN_HIGH_FREQ_BOOST = - 0.5"
definition MAX_LOW_FREQ_REDUCTION :: real where "MAX_LOW_FREQ_REDUCTION = 0.0"
definition MIN_LOW_FREQ_REDUCTION :: real where "MIN_LOW_FREQ_REDUCTION = - 12.0"
definition MAX_ADAPTIVE_GAIN :: real where "MAX_ADAPTIVE_GAIN = 2.0"
definition MIN_ADAPTIVE_GAIN :: real where "MIN_ADAPTIVE_GAIN = 0.3"
definition MIN_NOISE_GATE_THRESHOLD :: real where "MIN_NOISE_GATE_THRESHOLD = - 60.0"
definition MAX_NOISE_GATE_THRESHOLD :: real where "MAX_NOISE_GATE_THRESHOLD = - 10.0"
definition MIN_DECISION_DURATION :: int where "MIN_DECISION_DURATION = 10"
definition MAX_DECISION_DURATION :: int where "MAX_DECISION_DURATION = 3600"

definition ALLOWED_FREQUENCY_PROFILES :: "string list" where
  "ALLOWED_FREQUENCY_PROFILES = [''neutral'', ''speech_optimized'', ''clarity_boost'', ''comfort_focus'']"

text \<open>
  The violation and warning texts are f-strings; the model keeps which check fired and
  the value the text interpolates. The bound a text names is the constant above.
\<close>

datatype violation =
    ProhibitedTerm string
  | MissingField string
  | NoiseSuppressionOutOfBounds real
  | SpeechEnhancementOutOfBounds real
  | CompressionRatioOutOfBounds real
  | HighFreqBoostOutOfBounds real
  | LowFreqReductionOutOfBounds real
  | InvalidFrequencyProfile pyval
  | ConfidenceOutOfBounds real
  | DurationTooShort int
  | DurationTooLong int
  | NotReversible
  | RationaleTooShort

datatype warning = LowConfidence real | HighAggressiveness real

datatype message =
    FailedCritical nat
  | SafetyFailed nat nat
  | PassedWithWarnings nat
  | Passed

record SafetyCheck =
  is_safe :: bool
  violations :: "violation list"
  warnings :: "warning list"
  message :: message

definition prohibited_terms :: "string list" where
  "prohibited_terms =
     [''raw audio'', ''waveform'', ''sample rate'', ''fft'', ''coefficient'',
      ''impulse response'', ''filter design'', ''dsp'', ''digital signal'']"

definition required_fields :: "string list" where
  "required_fields =
     [''strategy_name'', ''noise_suppression_strength'', ''speech_enhancement_strength'',
      ''compression_ratio'', ''high_freq_boost_db'', ''rationale'', ''confidence'',
      ''duration_seconds'', ''is_reversible'']"

definition structural_violations :: "builtins \<Rightarrow> pydict \<Rightarrow> violation list" where
  \<comment> \<open>steps 1 and 2 of \<open>validate_strategy\<close>: one entry per prohibited term found, then one
      per required field that is missing\<close>
  "structural_violations b strategy =
     (let strategy_str = lower (str_of b strategy)
      in map ProhibitedTerm (filter (\<lambda>term. contains term strategy_str) prohibited_terms)
         @ map MissingField (filter (\<lambda>field. \<not> dict_has strategy field) required_fields))"

definition out_of :: "'a::linorder \<Rightarrow> 'a \<Rightarrow> 'a \<Rightarrow> bool" where
  "out_of lo hi x = (x < lo \<or> x > hi)"

definition parameter_violations ::
  "real \<Rightarrow> real \<Rightarrow> real \<Rightarrow> real \<Rightarrow> real \<Rightarrow> pyval \<Rightarrow> real \<Rightarrow> int \<Rightarrow> pyval \<Rightarrow> pyval \<Rightarrow> violation list" where
  \<comment> \<open>steps 3 to 12, in the order the source appends\<close>
  "parameter_violations ns se cr hfb lfr fp conf dur reversible rationale =
     (if out_of MIN_NOISE_SUPPRESSION MAX_NOISE_SUPPRESSION ns
        then [NoiseSuppressionOutOfBounds ns] else [])
     @ (if out_of MIN_SPEECH_ENHANCEMENT MAX_SPEECH_ENHANCEMENT se
        then [SpeechEnhancementOutOfBounds se] else [])
     @ (if out_of MIN_COMPRESSION_RATIO MAX_COMPRESSION_RATIO cr
        then [CompressionRatioOutOfBounds cr] else [])
     @ (if out_of MIN_HIGH_FREQ_BOOST MAX_HIGH_FREQ_BOOST hfb
        then [HighFreqBoostOutOfBounds hfb] else [])
     @ (if out_of MIN_LOW_FREQ_REDUCTION MAX_LOW_FREQ_REDUCTION lfr
        then [LowFreqReductionOutOfBounds lfr] else [])
     @ (if (case fp of PStr s \<Rightarrow> s \<notin> set ALLOWED_FREQUENCY_PROFILES | _ \<Rightarrow> True)
        then [InvalidFrequencyProfile fp] else [])
     @ (if conf < 0.0 \<or> conf > 1.0 then [ConfidenceOutOfBounds conf] else [])
     @ (if dur < MIN_DECISION_DURATION then [DurationTooShort dur] else [])
     @ (if dur > MAX_DECISION_DURATION then [DurationTooLong dur] else [])
     @ (if \<not> truthy reversible then [NotReversible] else [])
     @ (if (case rationale of PStr s \<Rightarrow> length s < 20 | _ \<Rightarrow> True)
        then [RationaleTooShort] else [])"

definition parameter_warnings :: "real \<Rightarrow> real \<Rightarrow> real \<Rightarrow> real \<Rightarrow> real \<Rightarrow> warning list" where
  \<comment> \<open>steps 13 and 14\<close>
  "parameter_warnings ns se cr hfb conf =
     (let total_aggressiveness = ns + se + (cr - 1.0) / 7.0 + hfb / 10.0
      in (if conf < 0.5 then [LowConfidence conf] else [])
         @ (if total_aggressiveness > 2.0 then [HighAggressiveness total_aggressiveness] else []))"

definition report :: "violation list \<Rightarrow> warning list \<Rightarrow> SafetyCheck" where
  "report vs ws =
     (if vs \<noteq> [] then
        \<lparr>is_safe = False, violations = vs, warnings = ws,
         message = SafetyFailed (length vs) (length ws)\<rparr>
      else if ws \<noteq> [] then
        \<lparr>is_safe = True, violations = vs, warnings = ws, message = PassedWithWarnings (length ws)\<rparr>
      else
        \<lparr>is_safe = True, violations = vs, warnings = ws, message = Passed\<rparr>)"

definition parameter_checks :: "builtins \<Rightarrow> pydict \<Rightarrow> error + SafetyCheck" where
  "parameter_checks b strategy =
     ebind (py_float b (dict_get strategy ''noise_suppression_strength'' (PFloat 0.5))) (\<lambda>ns.
     ebind (py_float b (dict_get strategy ''speech_enhancement_strength'' (PFloat 0.0))) (\<lambda>se.
     ebind (py_float b (dict_get strategy ''compression_ratio'' (PFloat 1.0))) (\<lambda>cr.
     ebind (py_float b (dict_get strategy ''high_freq_boost_db'' (PFloat 0.0))) (\<lambda>hfb.
     ebind (py_float b (dict_get strategy ''low_freq_reduction_db'' (PFloat 0.0))) (\<lambda>lfr.
     ebind (py_float b (dict_get strategy ''confidence'' (PFloat 0.5))) (\<lambda>conf.
     ebind (py_int b (dict_get strategy ''duration_seconds'' (PInt 30))) (\<lambda>dur.
       Inr (report
         (parameter_violations ns se cr hfb lfr
            (dict_get strategy ''frequency_profile'' (PStr ''neutral'')) conf dur
            (dict_get strategy ''is_reversible'' (PBool False))
            (dict_get strategy ''rationale'' (PStr [])))
         (parameter_warnings ns se cr hfb conf)))))))))"

definition validate_strategy :: "builtins \<Rightarrow> pydict \<Rightarrow> error + SafetyCheck" where
  "validate_strategy b strategy =
     (let vs = structural_violations b strategy
      in if vs \<noteq> [] then
           Inr \<lparr>is_safe = False, violations = vs, warnings = [],
                message = FailedCritical (length vs)\<rparr>
         else parameter_checks b strategy)"

text \<open>
  \<open>apply_safety_bounds\<close> copies the dictionary and overwrites five keys with the clamped
  float of the value found (or of the default). \<open>float\<close> raises \<open>TypeError\<close> on \<open>None\<close>
  and \<open>OverflowError\<close> on an int beyond the floats.
  On a string it either raises \<open>ValueError\<close> or returns a float that differs from the
  string, and then the correction text formats the string with \<open>:.2f\<close>, which raises
  \<open>ValueError\<close> as well. The correction texts are only logged.
\<close>

definition clamp_field :: "real \<Rightarrow> real \<Rightarrow> string \<Rightarrow> real \<Rightarrow> pydict \<Rightarrow> error + pydict" where
  "clamp_field lo hi k dflt d =
     (case dict_get d k (PFloat dflt) of
        PNone \<Rightarrow> Inl TypeError
      | PBool t \<Rightarrow> Inr (AList.update k (PFloat (max lo (min hi (if t then 1 else 0)))) d)
      | PInt i \<Rightarrow> ebind (float_of_int i) (\<lambda>r. Inr (AList.update k (PFloat (max lo (min hi r))) d))
      | PFloat r \<Rightarrow> Inr (AList.update k (PFloat (max lo (min hi r))) d)
      | PStr s \<Rightarrow> Inl ValueError)"

definition apply_safety_bounds :: "pydict \<Rightarrow> error + pydict" where
  "apply_safety_bounds strategy =
     ebind (clamp_field MIN_NOISE_SUPPRESSION MAX_NOISE_SUPPRESSION
              ''noise_suppression_strength'' 0.5 strategy) (\<lambda>s1.
     ebind (clamp_field MIN_SPEECH_ENHANCEMENT MAX_SPEECH_ENHANCEMENT
              ''speech_enhancement_strength'' 0.0 s1) (\<lambda>s2.
     ebind (clamp_field MIN_COMPRESSION_RATIO MAX_COMPRESSION_RATIO
              ''compression_ratio'' 1.0 s2) (\<lambda>s3.
     ebind (clamp_field MIN_HIGH_FREQ_BOOST MAX_HIGH_FREQ_BOOST
              ''high_freq_boost_db'' 0.0 s3) (\<lambda>s4.
     clamp_field MIN_LOW_FREQ_REDUCTION MAX_LOW_FREQ_REDUCTION
              ''low_freq_reduction_db'' 0.0 s4))))"

section \<open>AudioFeatureSet (src/audio/features.py)\<close>

text \<open>
  The dataclass has optional fields, \<open>None\<close> until the extractor fills them. The three
  fields computed from a NumPy mean can hold \<open>nan\<close>.
\<close>

record AudioFeatureSet =
  mfcc :: "real list option"
  mel_spectrogram :: "real list option"
  spectral_centroid :: "real option"
  spectral_rolloff :: "real option"
  zero_crossing_rate :: "npfloat option"
  onset_strength :: "npfloat option"
  tempo :: "real option"
  speech_probability :: "real option"
  noise_type :: "string option"
  noise_level_db :: "npfloat option"
  is_speech_present :: bool
  is_silence :: bool
  sound_event_class :: "string option"
  timestamp :: "real option"
  duration_ms :: "real option"
  sample_rate :: int

definition new_feature_set :: "int \<Rightarrow> AudioFeatureSet" where
  \<comment> \<open>\<open>AudioFeatureSet(sample_rate=...)\<close>: every other field at its default\<close>
  "new_feature_set sr =
     \<lparr>mfcc = None, mel_spectrogram = None, spectral_centroid = None, spectral_rolloff = None,
      zero_crossing_rate = None, onset_strength = None, tempo = None,
      speech_probability = None, noise_type = None, noise_level_db = None,
      is_speech_present = False, is_silence = False, sound_event_class = None,
      timestamp = None, duration_ms = None, sample_rate = sr\<rparr>"

definition to_llm_context :: "builtins \<Rightarrow> AudioFeatureSet \<Rightarrow> error + string" where
  \<comment> \<open>formatting \<open>None\<close> with \<open>:.1f\<close>, or multiplying it by 100, raises \<open>TypeError\<close>\<close>
  "to_llm_context b f =
     ebind (if is_silence f then Inr ''Environment: Silent or very quiet''
            else (case noise_level_db f of
                    None \<Rightarrow> Inl TypeError
                  | Some x \<Rightarrow> Inr (''Environment: Sound detected at '' @ format_f b 1 x @ ''dB''))) (\<lambda>env.
     ebind (case speech_probability f of
              None \<Rightarrow> Inl TypeError
            | Some p \<Rightarrow>
                Inr ((if is_speech_present f then ''Speech: Present ('' else ''Speech: Not detected ('')
                     @ format_f b 0 (Fin (p * 100)) @ ''% confidence)'')) (\<lambda>speech.
       Inr (join '' | ''
         ([env, speech]
          @ (case noise_type f of None \<Rightarrow> [] | Some t \<Rightarrow> if t = [] then [] else [''Noise type: '' @ t])
          @ (case sound_event_class f of
               None \<Rightarrow> [] | Some c \<Rightarrow> if c = [] then [] else [''Sound event: '' @ c])
          @ (case spectral_centroid f of
               None \<Rightarrow> []
             | Some c \<Rightarrow> if c = 0 then []
                         else [''Spectral profile: '' @ format_f b 0 (Fin c) @ ''Hz centroid''])))))"

section \<open>DecisionEngine (src/llm/decision_engine.py)\<close>

record Decision =
  primary_action :: pydict
  confidence :: real
  rationale :: string
  duration_seconds :: int
  secondary_adjustments :: "pydict list"
  is_reversible :: bool
  d_timestamp :: string

record history_record =
  h_timestamp :: "real option"
  audio_context :: string
  noise_level :: "npfloat option"
  decision :: pydict
  user_profile :: pydict
  feedback :: "string option"

text \<open>
  \<open>decision_history\<close> receives \<open>Decision\<close> objects from the Observe-Reason-Act-Learn
  cycle and dictionaries from \<open>_record_decision\<close>.
\<close>

datatype history_entry = DecisionEntry Decision | RecordEntry history_record

record engine =
  enable_safety :: bool
  decision_history :: "history_entry list"
  last_decision_time :: "string option"

definition MIN_ACTION_DURATION_SECONDS :: int where
  "MIN_ACTION_DURATION_SECONDS = 10"

definition parse_strategy_recommendation :: "builtins \<Rightarrow> pydict \<Rightarrow> error + pydict" where
  "parse_strategy_recommendation b llm_output =
     ebind (py_float b (dict_get llm_output ''noise_suppression_strength'' (PFloat 0.5))) (\<lambda>ns.
     ebind (py_float b (dict_get llm_output ''speech_enhancement_strength'' (PFloat 0.0))) (\<lambda>se.
     ebind (py_float b (dict_get llm_output ''compression_ratio'' (PFloat 1.0))) (\<lambda>cr.
     ebind (py_float b (dict_get llm_output ''high_freq_boost_db'' (PFloat 0.0))) (\<lambda>hfb.
       Inr [(''strategy_name'', dict_get llm_output ''strategy_name'' (PStr ''neutral'')),
            (''noise_suppression_strength'', PFloat ns),
            (''speech_enhancement_strength'', PFloat se),
            (''compression_ratio'', PFloat cr),
            (''high_freq_boost_db'', PFloat hfb),
            (''frequency_profile'', dict_get llm_output ''frequency_profile'' (PStr ''neutral''))]))))"

definition assess_confidence :: "real \<Rightarrow> string \<Rightarrow> string \<Rightarrow> real" where
  \<comment> \<open>arguments: the observation's \<open>speech_confidence\<close>, \<open>listening_intent\<close> and
      \<open>acoustic_scene\<close>\<close>
  "assess_confidence speech_confidence listening_intent acoustic_scene =
     (let base1 = (if listening_intent \<in> set [''conversation'', ''speech_recovery'']
                   then min 1.0 (speech_confidence + 0.1) else speech_confidence);
          base2 = (if acoustic_scene = ''unknown'' then max 0.4 (base1 - 0.2) else base1)
      in min 1.0 (max 0.3 base2))"

definition fallback_conservative_decision :: "string \<Rightarrow> Decision" where
  \<comment> \<open>the argument is \<open>datetime.now().isoformat()\<close>\<close>
  "fallback_conservative_decision now =
     \<lparr>primary_action =
        [(''strategy_name'', PStr ''minimal_intervention_monitoring''),
         (''noise_suppression_strength'', PFloat 0.3),
         (''speech_enhancement_strength'', PFloat 0.0),
         (''compression_ratio'', PFloat 1.0),
         (''high_freq_boost_db'', PFloat 0.0),
         (''frequency_profile'', PStr ''neutral'')],
      confidence = 0.6,
      rationale = ''Safety check failed. Using minimal intervention while monitoring.'',
      duration_seconds = MIN_ACTION_DURATION_SECONDS,
      secondary_adjustments =
        [[(''condition'', PStr ''if_safety_cleared''),
          (''adjustment'', PStr ''return_to_previous_strategy'')]],
      is_reversible = True,
      d_timestamp = now\<rparr>"

text \<open>
  The class defines \<open>decide_strategy\<close> twice. The first definition (lines 83 to 128) is
  the Observe-Reason-Act-Learn cycle; the second (lines 391 to 425) replaces it as the
  method of the class. The Observe and Reason phases build a prompt and call the advisor;
  their result, the candidate \<open>Decision\<close>, is the argument here, and the Act phase is
  modelled from there. The log line reads \<open>primary_action['strategy_name']\<close>, which raises
  \<open>KeyError\<close> when the key is missing; the model has no such error because a decision that
  reaches the line is either validated or the fallback.
\<close>

definition decide_strategy_oral ::
  "builtins \<Rightarrow> engine \<Rightarrow> Decision \<Rightarrow> string \<Rightarrow> error + (Decision \<times> SafetyCheck) \<times> engine" where
  "decide_strategy_oral b e candidate now =
     ebind (validate_strategy b (primary_action candidate)) (\<lambda>safety_check.
     ebind (if \<not> is_safe safety_check
            then (let d = fallback_conservative_decision now
                  in ebind (validate_strategy b (primary_action d)) (\<lambda>c. Inr (d, c)))
            else Inr (candidate, safety_check)) (\<lambda>(d, c).
       Inr ((d, c),
            e\<lparr>decision_history := decision_history e @ [DecisionEntry d],
              last_decision_time := Some now\<rparr>)))"

fun py_number :: "pyval \<Rightarrow> error + real" where
  \<comment> \<open>a value used as an operand of float arithmetic\<close>
  "py_number PNone = Inl TypeError"
| "py_number (PBool t) = Inr (if t then 1 else 0)"
| "py_number (PInt i) = float_of_int i"
| "py_number (PFloat r) = Inr r"
| "py_number (PStr s) = Inl TypeError"

definition compute_effectiveness :: "pydict \<Rightarrow> real option \<Rightarrow> error + real" where
  \<comment> \<open>\<open>None * 0.5\<close> and \<open>'text' * 0.5\<close> raise \<open>TypeError\<close>\<close>
  "compute_effectiveness outcome user_satisfaction =
     ebind (py_number (dict_get outcome ''asr_confidence_change'' (PInt 0))) (\<lambda>asr_confidence_change.
       let e0 = 0.5;
           e1 = e0 + asr_confidence_change * 0.5;
           e2 = (case user_satisfaction of
                   None \<Rightarrow> e1
                 | Some s \<Rightarrow> e1 + ((s - 50) / 50) * 0.3);
           e3 = (if truthy (dict_get outcome ''user_override'' (PBool False)) then e2 - 0.3 else e2)
       in Inr (max (- 1.0) (min 1.0 e3)))"

definition get_llm_decision :: pydict where
  \<comment> \<open>the mock answer of \<open>_get_llm_decision\<close>\<close>
  "get_llm_decision =
     [(''noise_suppression_strength'', PFloat 0.6),
      (''speech_enhancement_level'', PFloat 0.5),
      (''dynamic_range_compression_ratio'', PFloat 3.0),
      (''high_frequency_boost'', PFloat 2.0),
      (''low_frequency_reduction'', PFloat (- 3.0)),
      (''adaptive_gain'', PFloat 1.0),
      (''noise_gate_threshold'', PFloat (- 40.0)),
      (''rationale'', PStr ''Moderate processing for typical office environment with some background noise''),
      (''confidence'', PFloat 0.85)]"

definition record_decision ::
  "builtins \<Rightarrow> engine \<Rightarrow> AudioFeatureSet \<Rightarrow> pydict \<Rightarrow> pydict \<Rightarrow> string option \<Rightarrow> error + engine" where
  "record_decision b e features d profile fb =
     ebind (to_llm_context b features) (\<lambda>ctx.
       let r = \<lparr>h_timestamp = timestamp features, audio_context = ctx,
                noise_level = noise_level_db features, decision = d,
                user_profile = profile, feedback = fb\<rparr>;
           h = decision_history e @ [RecordEntry r]
       in Inr (e\<lparr>decision_history :=
                   (if length h > 10000 then drop (length h - 5000) h else h)\<rparr>))"

text \<open>
  The second \<open>decide_strategy\<close>. Its first statement builds the prompt, whose template
  starts by interpolating \<open>features.get('acoustic_scene', 'Unknown')\<close>. \<open>AudioFeatureSet\<close>
  is a dataclass without a \<open>get\<close> method, so the call raises \<open>AttributeError\<close>. The
  advisor's answer to the prompt is the argument \<open>candidate\<close>.
\<close>

definition build_audio_context_prompt :: "AudioFeatureSet \<Rightarrow> pydict \<Rightarrow> error + string" where
  "build_audio_context_prompt features profile = Inl AttributeError"

definition decide_strategy ::
  "builtins \<Rightarrow> engine \<Rightarrow> AudioFeatureSet \<Rightarrow> pydict \<Rightarrow> pydict \<Rightarrow> error + pydict \<times> engine" where
  "decide_strategy b e features candidate profile =
     ebind (build_audio_context_prompt features profile) (\<lambda>prompt.
     ebind (if enable_safety e then
              ebind (validate_strategy b candidate) (\<lambda>safety_check.
                if \<not> is_safe safety_check then apply_safety_bounds candidate else Inr candidate)
            else Inr candidate) (\<lambda>d.
     ebind (record_decision b e features d profile None) (\<lambda>e'. Inr (d, e'))))"

fun record_all ::
  "builtins \<Rightarrow> engine \<Rightarrow> (AudioFeatureSet \<times> pydict \<times> pydict \<times> string option) list \<Rightarrow> error + engine" where
  \<comment> \<open>a sequence of \<open>_record_decision\<close> calls; the first exception ends it\<close>
  "record_all b e [] = Inr e"
| "record_all b e ((f, d, p, fb) # rest) =
     ebind (record_decision b e f d p fb) (\<lambda>e'. record_all b e' rest)"

section \<open>NumPy operations on one-dimensional arrays\<close>

text \<open>
  An array of floats is a list of reals. The transforms are the mathematical ones:
  \<open>rfft\<close> is the first \<open>n div 2 + 1\<close> bins of the discrete Fourier transform of a real
  signal, \<open>irfft\<close> its inverse for an output of \<open>n\<close> samples. Both raise \<open>ValueError\<close> for
  zero points. Arithmetic warnings of NumPy (division by zero, mean of an empty array) are
  not exceptions.
\<close>

definition rfft :: "real list \<Rightarrow> error + complex list" where
  "rfft xs =
     (let n = length xs
      in if n = 0 then Inl ValueError
         else Inr (map (\<lambda>k. \<Sum>j<n. complex_of_real (xs ! j) * cis (- 2 * pi * real j * real k / real n))
                     [0..<n div 2 + 1]))"

definition irfft :: "complex list \<Rightarrow> nat \<Rightarrow> error + real list" where
  "irfft X n =
     (let bin = (\<lambda>k. if k < length X then X ! k else 0)
      in if n = 0 then Inl ValueError
         else Inr (map (\<lambda>j. (Re (bin 0)
                              + 2 * (\<Sum>k = 1..<(n + 1) div 2. Re (bin k * cis (2 * pi * real j * real k / real n)))
                              + (if even n then Re (bin (n div 2)) * (- 1) ^ j else 0)) / real n)
                     [0..<n]))"

definition rfftfreq :: "nat \<Rightarrow> int \<Rightarrow> error + real list" where
  \<comment> \<open>\<open>np.fft.rfftfreq(n, 1/sample_rate)\<close>: the argument \<open>1/sample_rate\<close> is a Python
      division, and so is \<open>1.0/(n*d)\<close> inside\<close>
  "rfftfreq n sr =
     (if sr = 0 then Inl ZeroDivisionError
      else if n = 0 then Inl ZeroDivisionError
      else Inr (map (\<lambda>k. real k * (1 / (real n * (1 / real_of_int sr)))) [0..<n div 2 + 1]))"

definition np_mean :: "real list \<Rightarrow> npfloat" where
  "np_mean xs = (if xs = [] then NaN else Fin (sum_list xs / real (length xs)))"

definition np_diff :: "real list \<Rightarrow> real list" where
  "np_diff xs = map2 (\<lambda>a b. b - a) xs (tl xs)"

fun cumsum_from :: "real \<Rightarrow> real list \<Rightarrow> real list" where
  "cumsum_from acc [] = []"
| "cumsum_from acc (x # xs) = (acc + x) # cumsum_from (acc + x) xs"

definition np_cumsum :: "real list \<Rightarrow> real list" where
  "np_cumsum xs = cumsum_from 0 xs"

fun first_index :: "('a \<Rightarrow> bool) \<Rightarrow> 'a list \<Rightarrow> nat option" where
  \<comment> \<open>\<open>np.where(mask)[0][0]\<close> when there is one\<close>
  "first_index P [] = None"
| "first_index P (x # xs) = (if P x then Some 0 else map_option Suc (first_index P xs))"

definition np_percentile :: "real list \<Rightarrow> real \<Rightarrow> real" where
  \<comment> \<open>linear interpolation between the two nearest ranks, on a non-empty array\<close>
  "np_percentile xs q =
     (let sorted = sort xs; n = length xs;
          pos = q / 100 * real (n - 1);
          lo = nat \<lfloor>pos\<rfloor>; hi = min (lo + 1) (n - 1)
      in sorted ! lo + (pos - real lo) * (sorted ! hi - sorted ! lo))"

definition convolve_full :: "real list \<Rightarrow> real list \<Rightarrow> real list" where
  "convolve_full a v =
     map (\<lambda>i. \<Sum>j<length a. if j \<le> i \<and> i - j < length v then a ! j * v ! (i - j) else 0)
       [0..<length a + length v - 1]"

definition np_convolve_same :: "real list \<Rightarrow> real list \<Rightarrow> error + real list" where
  \<comment> \<open>\<open>mode='same'\<close>: the centre of the full convolution, as long as the longer argument\<close>
  "np_convolve_same a v =
     (if a = [] \<or> v = [] then Inl ValueError
      else (let n = min (length a) (length v); m = max (length a) (length v)
            in Inr (take m (drop ((n - 1) div 2) (convolve_full a v)))))"

definition np_multiply :: "real list \<Rightarrow> real list \<Rightarrow> error + real list" where
  \<comment> \<open>elementwise product with broadcasting: equal shapes, or one operand of length 1\<close>
  "np_multiply xs ys =
     (if length xs = length ys then Inr (map2 (*) xs ys)
      else if length xs = 1 then Inr (map (\<lambda>y. hd xs * y) ys)
      else if length ys = 1 then Inr (map (\<lambda>x. x * hd ys) xs)
      else Inl ValueError)"

definition np_clip :: "real \<Rightarrow> real \<Rightarrow> real list \<Rightarrow> real list" where
  "np_clip lo hi xs = map (\<lambda>x. min (max x lo) hi) xs"

section \<open>AudioFeatureExtractor (src/audio/extractor.py)\<close>

definition compute_spectral_centroid :: "int \<Rightarrow> real list \<Rightarrow> error + real" where
  "compute_spectral_centroid sr signal =
     ebind (rfft signal) (\<lambda>fft.
     ebind (rfftfreq (length signal) sr) (\<lambda>freqs.
       let magnitude = map cmod fft
       in Inr (if sum_list magnitude > 0
               then sum_list (map2 (*) freqs magnitude) / sum_list magnitude else 0)))"

definition compute_spectral_rolloff :: "int \<Rightarrow> real list \<Rightarrow> error + real" where
  "compute_spectral_rolloff sr signal =
     ebind (rfft signal) (\<lambda>fft.
     ebind (rfftfreq (length signal) sr) (\<lambda>freqs.
       let magnitude = map cmod fft;
           cumsum = np_cumsum magnitude;
           total_energy = (if length cumsum > 0 then last cumsum else 1)
       in Inr (case first_index (\<lambda>c. c \<ge> 0.85 * total_energy) cumsum of
                 None \<Rightarrow> 0
               | Some i \<Rightarrow> freqs ! i)))"

definition compute_zcr :: "real list \<Rightarrow> npfloat" where
  "compute_zcr signal =
     (case np_mean (map abs (np_diff (map sgn signal))) of NaN \<Rightarrow> NaN | Fin m \<Rightarrow> Fin (m / 2))"

definition compute_onset_strength :: "real list \<Rightarrow> npfloat" where
  "compute_onset_strength signal =
     (case np_mean (map (\<lambda>d. d ^ 2) (np_diff signal)) of NaN \<Rightarrow> NaN | Fin m \<Rightarrow> Fin (sqrt m))"

definition estimate_noise_level :: "real list \<Rightarrow> npfloat" where
  \<comment> \<open>Python's \<open>max(nan, 1e-10)\<close> is \<open>nan\<close>\<close>
  "estimate_noise_level signal =
     (case np_mean (map (\<lambda>x. x ^ 2) signal) of
        NaN \<Rightarrow> NaN
      | Fin m \<Rightarrow> Fin (20 * log 10 (max (sqrt m) (1 / 10 ^ 10))))"

definition estimate_speech_probability :: "int \<Rightarrow> real list \<Rightarrow> error + real" where
  \<comment> \<open>with a \<open>nan\<close> rate, Python's \<open>min(1, nan)\<close> is 1\<close>
  "estimate_speech_probability sr signal =
     ebind (compute_spectral_centroid sr signal) (\<lambda>centroid.
       let centroid_score = max 0 (min 1 (1 - \<bar>centroid - 2000\<bar> / 4000));
           zcr_score = (case compute_zcr signal of
                          NaN \<Rightarrow> 1
                        | Fin zcr \<Rightarrow> max 0 (min 1 (1 - \<bar>zcr - 0.5\<bar> / 1.0)))
       in Inr ((centroid_score + zcr_score) / 2))"

definition classify_noise :: "int \<Rightarrow> real list \<Rightarrow> error + string" where
  "classify_noise sr signal =
     ebind (compute_spectral_centroid sr signal) (\<lambda>spectral_centroid.
       Inr (if spectral_centroid < 500 then ''low_frequency''
            else if spectral_centroid < 2000 then ''mid_frequency''
            else if spectral_centroid < 8000 then ''high_frequency''
            else ''very_high_frequency''))"

definition np_less :: "npfloat \<Rightarrow> real \<Rightarrow> bool" where
  "np_less x c = (case x of NaN \<Rightarrow> False | Fin r \<Rightarrow> r < c)"

definition np_greater :: "npfloat \<Rightarrow> real \<Rightarrow> bool" where
  "np_greater x c = (case x of NaN \<Rightarrow> False | Fin r \<Rightarrow> r > c)"

definition classify_sound_event :: "int \<Rightarrow> real list \<Rightarrow> error + string" where
  "classify_sound_event sr signal =
     (let noise_level = estimate_noise_level signal
      in ebind (estimate_speech_probability sr signal) (\<lambda>speech_prob.
           Inr (if np_less noise_level 30 then ''silence''
                else if speech_prob > 0.7 then ''speech''
                else if np_greater noise_level 60 then ''loud_noise''
                else ''background_sound'')))"

definition extract_features :: "int \<Rightarrow> real list \<Rightarrow> real option \<Rightarrow> error + AudioFeatureSet" where
  "extract_features sr audio_signal duration =
     ebind (case duration of
              None \<Rightarrow> if sr = 0 then Inl ZeroDivisionError
                      else Inr (real (length audio_signal) / real_of_int sr * 1000)
            | Some d \<Rightarrow> Inr d) (\<lambda>dur.
     ebind (compute_spectral_centroid sr audio_signal) (\<lambda>centroid.
     ebind (compute_spectral_rolloff sr audio_signal) (\<lambda>rolloff.
     ebind (estimate_speech_probability sr audio_signal) (\<lambda>speech.
     ebind (classify_noise sr audio_signal) (\<lambda>ntype.
     ebind (classify_sound_event sr audio_signal) (\<lambda>event.
       let level = estimate_noise_level audio_signal
       in Inr ((new_feature_set sr)
                \<lparr>duration_ms := Some dur,
                 spectral_centroid := Some centroid,
                 spectral_rolloff := Some rolloff,
                 zero_crossing_rate := Some (compute_zcr audio_signal),
                 onset_strength := Some (compute_onset_strength audio_signal),
                 noise_level_db := Some level,
                 speech_probability := Some speech,
                 is_silence := np_less level 30,
                 is_speech_present := (speech > 0.5),
                 noise_type := Some ntype,
                 sound_event_class := Some event\<rparr>)))))))"

section \<open>AudioProcessor (src/audio/processor.py)\<close>

record AudioProcessingStrategy =
  noise_suppression_strength :: real
  speech_enhancement_level :: real
  dynamic_range_compression_ratio :: real
  frequency_emphasis :: "(string \<times> real) list option"
  high_frequency_boost :: real
  low_frequency_reduction :: real
  adaptive_gain :: real
  noise_gate_threshold :: real
  explanation :: string

definition apply_noise_suppression :: "real list \<Rightarrow> real \<Rightarrow> error + real list" where
  "apply_noise_suppression signal strength =
     ebind (rfft signal) (\<lambda>fft.
       let magnitude = map cmod fft;
           phase = map Arg fft;
           frame_energy = map (\<lambda>m. m ^ 2) magnitude;
           noise_floor = np_percentile frame_energy 10;
           suppressed_mag = map (\<lambda>m. sqrt (max (m ^ 2 - strength * noise_floor) (0.1 * m ^ 2))) magnitude;
           fft_suppressed = map2 (\<lambda>m p. complex_of_real m * cis p) suppressed_mag phase
       in irfft fft_suppressed (length signal))"

definition apply_noise_gate :: "real list \<Rightarrow> real \<Rightarrow> error + real list" where
  "apply_noise_gate signal threshold_db =
     (let threshold_linear = 10 powr (threshold_db / 20);
          gate = map (\<lambda>x. if \<bar>x\<bar> > threshold_linear * 0.1 then 1.0 else 0.0) signal
      in ebind (np_convolve_same gate (replicate 100 (1 / 100))) (\<lambda>smooth.
           np_multiply signal smooth))"

definition apply_speech_enhancement :: "int \<Rightarrow> real list \<Rightarrow> real \<Rightarrow> error + real list" where
  "apply_speech_enhancement sr signal level =
     ebind (rfft signal) (\<lambda>fft.
     ebind (rfftfreq (length signal) sr) (\<lambda>freqs.
       let emphasis = map (\<lambda>f. if f \<ge> 300 \<and> f \<le> 3000 then 1.0 + level * 0.5 else 1.0) freqs;
           fft_enhanced = map2 (\<lambda>z g. z * complex_of_real g) fft emphasis
       in irfft fft_enhanced (length signal)))"

definition apply_compression :: "real list \<Rightarrow> real \<Rightarrow> error + real list" where
  \<comment> \<open>\<open>threshold\<close> is the default 0.5; NumPy divides by zero without raising, and both
      there and here the gain of such a sample is 0\<close>
  "apply_compression signal ratio =
     (let threshold = 0.5;
          gain = map (\<lambda>x. if \<bar>x\<bar> > threshold
                           then threshold / (\<bar>x\<bar> / (1 / ratio - 1 + \<bar>x\<bar>)) else 1) signal
      in ebind (np_convolve_same gain (replicate 50 (1 / 50))) (\<lambda>smooth.
           np_multiply signal smooth))"

definition band_mask :: "string \<Rightarrow> (real \<Rightarrow> bool) option" where
  "band_mask band =
     (if band = ''low'' then Some (\<lambda>f. f < 500)
      else if band = ''mid_low'' then Some (\<lambda>f. f \<ge> 500 \<and> f < 2000)
      else if band = ''mid_high'' then Some (\<lambda>f. f \<ge> 2000 \<and> f < 8000)
      else if band = ''high'' then Some (\<lambda>f. f \<ge> 8000)
      else None)"

fun band_emphasis :: "real list \<Rightarrow> (string \<times> real) list \<Rightarrow> real list \<Rightarrow> real list" where
  \<comment> \<open>the loop over \<open>emphasis_dict.items()\<close>\<close>
  "band_emphasis freqs [] emphasis = emphasis"
| "band_emphasis freqs ((band, gain_db) # rest) emphasis =
     (case band_mask band of
        None \<Rightarrow> band_emphasis freqs rest emphasis
      | Some in_band \<Rightarrow>
          band_emphasis freqs rest
            (map2 (\<lambda>f g. if in_band f then g * 10 powr (gain_db / 20) else g) freqs emphasis))"

definition apply_frequency_emphasis ::
  "int \<Rightarrow> real list \<Rightarrow> (string \<times> real) list \<Rightarrow> error + real list" where
  "apply_frequency_emphasis sr signal emphasis_dict =
     ebind (rfft signal) (\<lambda>fft.
     ebind (rfftfreq (length signal) sr) (\<lambda>freqs.
       let emphasis = band_emphasis freqs emphasis_dict (map (\<lambda>f. 1) freqs);
           fft_emphasized = map2 (\<lambda>z g. z * complex_of_real g) fft emphasis
       in irfft fft_emphasized (length signal)))"

definition apply_frequency_adjustments :: "int \<Rightarrow> real list \<Rightarrow> real \<Rightarrow> real \<Rightarrow> error + real list" where
  "apply_frequency_adjustments sr signal high_freq_boost_db low_freq_reduction_db =
     ebind (rfft signal) (\<lambda>fft.
     ebind (rfftfreq (length signal) sr) (\<lambda>freqs.
       let fft1 = (if high_freq_boost_db \<noteq> 0
                   then map2 (\<lambda>z f. if f > 4000
                                     then z * complex_of_real (10 powr (high_freq_boost_db / 20))
                                     else z) fft freqs
                   else fft);
           fft2 = (if low_freq_reduction_db \<noteq> 0
                   then map2 (\<lambda>z f. if f < 200
                                     then z * complex_of_real (10 powr (low_freq_reduction_db / 20))
                                     else z) fft1 freqs
                   else fft1)
       in irfft fft2 (length signal)))"

definition apply_strategy :: "int \<Rightarrow> real list \<Rightarrow> AudioProcessingStrategy \<Rightarrow> error + real list" where
  "apply_strategy sr signal strategy =
     ebind (if noise_suppression_strength strategy > 0
            then apply_noise_suppression signal (noise_suppression_strength strategy)
            else Inr signal) (\<lambda>p1.
     ebind (apply_noise_gate p1 (noise_gate_threshold strategy)) (\<lambda>p2.
     ebind (if speech_enhancement_level strategy > 0
            then apply_speech_enhancement sr p2 (speech_enhancement_level strategy)
            else Inr p2) (\<lambda>p3.
     ebind (if dynamic_range_compression_ratio strategy > 1.0
            then apply_compression p3 (dynamic_range_compression_ratio strategy)
            else Inr p3) (\<lambda>p4.
     ebind (case frequency_emphasis strategy of
              None \<Rightarrow> Inr p4
            | Some emphasis_dict \<Rightarrow>
                if emphasis_dict = [] then Inr p4
                else apply_frequency_emphasis sr p4 emphasis_dict) (\<lambda>p5.
     ebind (apply_frequency_adjustments sr p5 (high_frequency_boost strategy)
              (low_frequency_reduction strategy)) (\<lambda>p6.
       Inr (np_clip (- 1.0) 1.0 (map (\<lambda>x. x * adaptive_gain strategy) p6))))))))"

section \<open>Predicates and inputs used in the statements\<close>

definition field_within :: "real \<Rightarrow> real \<Rightarrow> string \<Rightarrow> pydict \<Rightarrow> bool" where
  \<comment> \<open>the key holds a float between the two bounds\<close>
  "field_within lo hi k d =
     (case map_of d k of Some (PFloat r) \<Rightarrow> lo \<le> r \<and> r \<le> hi | _ \<Rightarrow> False)"

definition clamped_fields :: "string list" where
  "clamped_fields =
     [''noise_suppression_strength'', ''speech_enhancement_strength'', ''compression_ratio'',
      ''high_freq_boost_db'', ''low_freq_reduction_db'']"

definition clamped :: "pydict \<Rightarrow> bool" where
  "clamped d =
     (field_within MIN_NOISE_SUPPRESSION MAX_NOISE_SUPPRESSION ''noise_suppression_strength'' d
      \<and> field_within MIN_SPEECH_ENHANCEMENT MAX_SPEECH_ENHANCEMENT ''speech_enhancement_strength'' d
      \<and> field_within MIN_COMPRESSION_RATIO MAX_COMPRESSION_RATIO ''compression_ratio'' d
      \<and> field_within MIN_HIGH_FREQ_BOOST MAX_HIGH_FREQ_BOOST ''high_freq_boost_db'' d
      \<and> field_within MIN_LOW_FREQ_REDUCTION MAX_LOW_FREQ_REDUCTION ''low_freq_reduction_db'' d)"

definition complete_strategy :: pydict where
  \<comment> \<open>a strategy with every field of the decision prompt, all within bounds\<close>
  "complete_strategy =
     [(''strategy_name'', PStr ''moderate_noise_suppression''),
      (''noise_suppression_strength'', PFloat 0.5),
      (''speech_enhancement_strength'', PFloat 0.4),
      (''compression_ratio'', PFloat 3.5),
      (''high_freq_boost_db'', PFloat 2.0),
      (''low_freq_reduction_db'', PFloat (- 3.0)),
      (''frequency_profile'', PStr ''speech_optimized''),
      (''rationale'', PStr ''Moderate noise with clear user preference for clarity''),
      (''confidence'', PFloat 0.8),
      (''duration_seconds'', PInt 30),
      (''is_reversible'', PBool True)]"

definition waveform_request :: pydict where
  \<comment> \<open>a rationale with a prohibited term, and a noise suppression above its bound\<close>
  "waveform_request =
     [(''strategy_name'', PStr ''aggressive''),
      (''noise_suppression_strength'', PFloat 1.5),
      (''speech_enhancement_strength'', PFloat 0.4),
      (''compression_ratio'', PFloat 3.5),
      (''high_freq_boost_db'', PFloat 2.0),
      (''frequency_profile'', PStr ''neutral''),
      (''rationale'', PStr ''I need the raw waveform data for processing''),
      (''confidence'', PFloat 0.8),
      (''duration_seconds'', PInt 30),
      (''is_reversible'', PBool True)]"

definition unchecked_gain_strategy :: pydict where
  \<comment> \<open>\<open>complete_strategy\<close> with an adaptive gain and a noise gate threshold out of range\<close>
  "unchecked_gain_strategy =
     complete_strategy @ [(''adaptive_gain'', PFloat 5.0), (''noise_gate_threshold_db'', PFloat 0.0)]"

definition test_apply_safety_bounds_strategy :: pydict where
  \<comment> \<open>the strategy of \<open>test_apply_safety_bounds\<close> in tests/test_llm.py\<close>
  "test_apply_safety_bounds_strategy =
     [(''noise_suppression_strength'', PFloat 1.5),
      (''speech_enhancement_level'', PFloat (- 0.5)),
      (''dynamic_range_compression_ratio'', PFloat 15.0),
      (''high_frequency_boost'', PFloat 20.0),
      (''low_frequency_reduction'', PFloat (- 20.0)),
      (''adaptive_gain'', PFloat 0.5),
      (''noise_gate_threshold'', PFloat (- 40.0))]"

definition short_duration_strategy :: pydict where
  \<comment> \<open>\<open>complete_strategy\<close> with a duration of 5 seconds\<close>
  "short_duration_strategy =
     [(''strategy_name'', PStr ''moderate_noise_suppression''),
      (''noise_suppression_strength'', PFloat 0.5),
      (''speech_enhancement_strength'', PFloat 0.4),
      (''compression_ratio'', PFloat 3.5),
      (''high_freq_boost_db'', PFloat 2.0),
      (''low_freq_reduction_db'', PFloat (- 3.0)),
      (''frequency_profile'', PStr ''speech_optimized''),
      (''rationale'', PStr ''Moderate noise with clear user preference for clarity''),
      (''confidence'', PFloat 0.8),
      (''duration_seconds'', PInt 5),
      (''is_reversible'', PBool True)]"

definition effectiveness_formula :: "real \<Rightarrow> real option \<Rightarrow> bool \<Rightarrow> real" where
  \<comment> \<open>the effectiveness signal in the words of the specification\<close>
  "effectiveness_formula asr satisfaction override =
     max (- 1) (min 1
       (0.5 + 0.5 * asr
        + (case satisfaction of None \<Rightarrow> 0 | Some s \<Rightarrow> 0.3 * ((s - 50) / 50))
        - (if override then 0.3 else 0)))"

definition positive_outcome :: pydict where
  "positive_outcome = [(''asr_confidence_change'', PFloat 0.15), (''user_override'', PBool False)]"

definition negative_outcome :: pydict where
  "negative_outcome = [(''asr_confidence_change'', PFloat (- 0.10)), (''user_override'', PBool True)]"

definition call_llm_reasoning :: pydict where
  \<comment> \<open>the flat part of the mock answer of \<open>_call_llm_reasoning\<close>\<close>
  "call_llm_reasoning =
     [(''strategy_name'', PStr ''moderate_noise_suppression_with_speech_boost''),
      (''noise_suppression_strength'', PFloat 0.65),
      (''speech_enhancement_strength'', PFloat 0.4),
      (''compression_ratio'', PFloat 3.5),
      (''high_freq_boost_db'', PFloat 2.0),
      (''frequency_profile'', PStr ''speech_optimized''),
      (''rationale'', PStr ''Moderate noise with clear user preference for clarity''),
      (''duration_seconds'', PInt 30)]"

definition reasoned_candidate :: Decision where
  \<comment> \<open>the \<open>Decision\<close> that \<open>_reason\<close> builds from the mock answer, for a speech confidence
      of 0.5 in a conversation in an unknown scene\<close>
  "reasoned_candidate =
     \<lparr>primary_action =
        [(''strategy_name'', PStr ''moderate_noise_suppression_with_speech_boost''),
         (''noise_suppression_strength'', PFloat 0.65),
         (''speech_enhancement_strength'', PFloat 0.4),
         (''compression_ratio'', PFloat 3.5),
         (''high_freq_boost_db'', PFloat 2.0),
         (''frequency_profile'', PStr ''speech_optimized'')],
      confidence = assess_confidence 0.5 ''conversation'' ''unknown'',
      rationale = ''Moderate noise with clear user preference for clarity'',
      duration_seconds = max MIN_ACTION_DURATION_SECONDS 30,
      secondary_adjustments = [],
      is_reversible = True,
      d_timestamp = ''2024-01-01T12:00:00''\<rparr>"

definition idle_engine :: engine where
  "idle_engine = \<lparr>enable_safety = True, decision_history = [], last_decision_time = None\<rparr>"

definition quiet_features :: AudioFeatureSet where
  "quiet_features =
     (new_feature_set 16000)
       \<lparr>noise_level_db := Some (Fin (- 200)), speech_probability := Some 0.2,
        is_silence := True, sound_event_class := Some ''silence''\<rparr>"

definition quiet_record :: history_record where
  "quiet_record =
     \<lparr>h_timestamp = None,
      audio_context = ''Environment: Silent or very quiet | Speech: Not detected (20% confidence) | Sound event: silence'',
      noise_level = Some (Fin (- 200)), decision = complete_strategy, user_profile = [],
      feedback = None\<rparr>"

definition full_engine :: engine where
  \<comment> \<open>an engine whose history holds 10000 records\<close>
  "full_engine =
     \<lparr>enable_safety = True, decision_history = replicate 10000 (RecordEntry quiet_record),
      last_decision_time = None\<rparr>"

definition out_of_range_candidate :: pydict where
  \<comment> \<open>\<open>complete_strategy\<close> with a noise suppression of 1.5\<close>
  "out_of_range_candidate =
     [(''strategy_name'', PStr ''moderate_noise_suppression''),
      (''noise_suppression_strength'', PFloat 1.5),
      (''speech_enhancement_strength'', PFloat 0.4),
      (''compression_ratio'', PFloat 3.5),
      (''high_freq_boost_db'', PFloat 2.0),
      (''low_freq_reduction_db'', PFloat (- 3.0)),
      (''frequency_profile'', PStr ''speech_optimized''),
      (''rationale'', PStr ''Moderate noise with clear user preference for clarity''),
      (''confidence'', PFloat 0.8),
      (''duration_seconds'', PInt 30),
      (''is_reversible'', PBool True)]"

definition quiet_office :: AudioProcessingStrategy where
  \<comment> \<open>the preset of src/hearing_aid/strategies.py that the controller starts with\<close>
  "quiet_office =
     \<lparr>noise_suppression_strength = 0.3, speech_enhancement_level = 0.3,
      dynamic_range_compression_ratio = 2.0, frequency_emphasis = None,
      high_frequency_boost = 1.0, low_frequency_reduction = - 2.0, adaptive_gain = 1.0,
      noise_gate_threshold = - 45.0,
      explanation = ''Light noise suppression with speech enhancement''\<rparr>"

section \<open>SafetyValidator: what the checks do\<close>

lemmas bounds_defs =
  MAX_NOISE_SUPPRESSION_def MIN_NOISE_SUPPRESSION_def MAX_SPEECH_ENHANCEMENT_def
  MIN_SPEECH_ENHANCEMENT_def MAX_COMPRESSION_RATIO_def MIN_COMPRESSION_RATIO_def
  MAX_HIGH_FREQ_BOOST_def MIN_HIGH_FREQ_BOOST_def MAX_LOW_FREQ_REDUCTION_def
  MIN_LOW_FREQ_REDUCTION_def MAX_ADAPTIVE_GAIN_def MIN_ADAPTIVE_GAIN_def
  MIN_NOISE_GATE_THRESHOLD_def MAX_NOISE_GATE_THRESHOLD_def MIN_DECISION_DURATION_def
  MAX_DECISION_DURATION_def

lemma structural_violations_kinds:
  "v \<in> set (structural_violations b s) \<Longrightarrow> (\<exists>t. v = ProhibitedTerm t) \<or> (\<exists>f. v = MissingField f)"
  by (auto simp: structural_violations_def Let_def)

lemma structural_violations_prohibited:
  "t \<in> set prohibited_terms \<Longrightarrow> contains t (lower (str_of b s)) \<Longrightarrow>
   ProhibitedTerm t \<in> set (structural_violations b s)"
  by (simp add: structural_violations_def Let_def)

lemma validate_structural:
  "structural_violations b s \<noteq> [] \<Longrightarrow>
   validate_strategy b s = Inr \<lparr>is_safe = False, violations = structural_violations b s,
     warnings = [], message = FailedCritical (length (structural_violations b s))\<rparr>"
  by (simp add: validate_strategy_def Let_def)

text \<open>
  Claim C10. When the lowered rendering of a strategy contains a prohibited term,
  \<open>validate_strategy\<close> returns at the structural stage: the check is unsafe, it lists the
  prohibited term, every violation in it is a prohibited term or a missing field (none is a
  bound violation, whatever the numeric fields hold), and there is no warning.
\<close>

theorem prohibited_term_short_circuits:
  assumes "t \<in> set prohibited_terms" and "contains t (lower (str_of b strategy))"
  shows "\<exists>c. validate_strategy b strategy = Inr c \<and> \<not> is_safe c \<and> warnings c = []
           \<and> ProhibitedTerm t \<in> set (violations c)
           \<and> (\<forall>v \<in> set (violations c). (\<exists>t'. v = ProhibitedTerm t') \<or> (\<exists>f. v = MissingField f))"
proof -
  have mem: "ProhibitedTerm t \<in> set (structural_violations b strategy)"
    using assms by (rule structural_violations_prohibited)
  then have "structural_violations b strategy \<noteq> []"
    by auto
  then show ?thesis
    using mem structural_violations_kinds [of _ b strategy]
    by (simp add: validate_structural)
qed

theorem prohibited_term_short_circuits_witness:
  "''waveform'' \<in> set prohibited_terms
   \<and> contains ''waveform'' (lower (str_of py waveform_request))
   \<and> (\<exists>c. validate_strategy py waveform_request = Inr c \<and> \<not> is_safe c \<and> warnings c = []
          \<and> ProhibitedTerm ''waveform'' \<in> set (violations c))"
proof -
  have t: "''waveform'' \<in> set prohibited_terms"
    by (simp add: prohibited_terms_def)
  have r: "contains ''waveform'' (lower (str_of py waveform_request))"
    by code_simp
  from prohibited_term_short_circuits [OF t r] show ?thesis
    using t r by blast
qed

text \<open>
  Claim C4. The claim wants an adaptive gain outside [0.3, 2.0] and a noise gate threshold
  outside [-60, -10] reported. The class declares the four bounds and never reads them: a
  strategy that is valid in every checked field passes with an adaptive gain of 5.0 and a
  noise gate threshold of 0.0.
\<close>

theorem unchecked_gain_passes:
  "validate_strategy py unchecked_gain_strategy
     = Inr \<lparr>is_safe = True, violations = [], warnings = [], message = Passed\<rparr>
   \<and> dict_get unchecked_gain_strategy ''adaptive_gain'' PNone = PFloat 5.0
   \<and> out_of MIN_ADAPTIVE_GAIN MAX_ADAPTIVE_GAIN 5.0
   \<and> dict_get unchecked_gain_strategy ''noise_gate_threshold_db'' PNone = PFloat 0.0
   \<and> out_of MIN_NOISE_GATE_THRESHOLD MAX_NOISE_GATE_THRESHOLD 0.0"
  by code_simp

section \<open>SafetyValidator: clamping\<close>

lemma clamp_field_within:
  "lo \<le> hi \<Longrightarrow> clamp_field lo hi k dflt d = Inr d' \<Longrightarrow> field_within lo hi k d'"
  by (auto simp: clamp_field_def field_within_def update_conv' float_of_int_def ebind_def
        split: pyval.splits if_splits)

lemma clamp_field_other:
  "clamp_field lo hi k dflt d = Inr d' \<Longrightarrow> k' \<noteq> k \<Longrightarrow> map_of d' k' = map_of d k'"
  by (auto simp: clamp_field_def update_conv' float_of_int_def ebind_def
        split: pyval.splits if_splits)

lemma clamp_field_fix:
  "field_within lo hi k d \<Longrightarrow> clamp_field lo hi k dflt d = Inr d"
  by (auto simp: clamp_field_def field_within_def dict_get_def update_triv max_def min_def
           split: option.splits pyval.splits)

lemma field_within_other:
  "field_within lo hi k' d \<Longrightarrow> clamp_field lo2 hi2 k dflt d = Inr d' \<Longrightarrow> k' \<noteq> k \<Longrightarrow>
   field_within lo hi k' d'"
  by (simp add: field_within_def clamp_field_other)

lemma apply_safety_bounds_steps:
  assumes "apply_safety_bounds s = Inr s'"
  obtains s1 s2 s3 s4 where
    "clamp_field MIN_NOISE_SUPPRESSION MAX_NOISE_SUPPRESSION ''noise_suppression_strength'' 0.5 s = Inr s1"
    "clamp_field MIN_SPEECH_ENHANCEMENT MAX_SPEECH_ENHANCEMENT ''speech_enhancement_strength'' 0.0 s1 = Inr s2"
    "clamp_field MIN_COMPRESSION_RATIO MAX_COMPRESSION_RATIO ''compression_ratio'' 1.0 s2 = Inr s3"
    "clamp_field MIN_HIGH_FREQ_BOOST MAX_HIGH_FREQ_BOOST ''high_freq_boost_db'' 0.0 s3 = Inr s4"
    "clamp_field MIN_LOW_FREQ_REDUCTION MAX_LOW_FREQ_REDUCTION ''low_freq_reduction_db'' 0.0 s4 = Inr s'"
  using assms unfolding apply_safety_bounds_def ebind_def
  by (auto split: sum.splits)

lemma apply_safety_bounds_clamped:
  assumes "apply_safety_bounds s = Inr s'"
  shows "clamped s'"
proof -
  from assms obtain s1 s2 s3 s4 where
    1: "clamp_field MIN_NOISE_SUPPRESSION MAX_NOISE_SUPPRESSION ''noise_suppression_strength'' 0.5 s = Inr s1" and
    2: "clamp_field MIN_SPEECH_ENHANCEMENT MAX_SPEECH_ENHANCEMENT ''speech_enhancement_strength'' 0.0 s1 = Inr s2" and
    3: "clamp_field MIN_COMPRESSION_RATIO MAX_COMPRESSION_RATIO ''compression_ratio'' 1.0 s2 = Inr s3" and
    4: "clamp_field MIN_HIGH_FREQ_BOOST MAX_HIGH_FREQ_BOOST ''high_freq_boost_db'' 0.0 s3 = Inr s4" and
    5: "clamp_field MIN_LOW_FREQ_REDUCTION MAX_LOW_FREQ_REDUCTION ''low_freq_reduction_db'' 0.0 s4 = Inr s'"
    by (rule apply_safety_bounds_steps)
  have a: "field_within MIN_NOISE_SUPPRESSION MAX_NOISE_SUPPRESSION ''noise_suppression_strength'' s1"
    using 1 by (rule clamp_field_within [rotated]) (simp add: bounds_defs)
  have b: "field_within MIN_SPEECH_ENHANCEMENT MAX_SPEECH_ENHANCEMENT ''speech_enhancement_strength'' s2"
    using 2 by (rule clamp_field_within [rotated]) (simp add: bounds_defs)
  have c: "field_within MIN_COMPRESSION_RATIO MAX_COMPRESSION_RATIO ''compression_ratio'' s3"
    using 3 by (rule clamp_field_within [rotated]) (simp add: bounds_defs)
  have d: "field_within MIN_HIGH_FREQ_BOOST MAX_HIGH_FREQ_BOOST ''high_freq_boost_db'' s4"
    using 4 by (rule clamp_field_within [rotated]) (simp add: bounds_defs)
  have e: "field_within MIN_LOW_FREQ_REDUCTION MAX_LOW_FREQ_REDUCTION ''low_freq_reduction_db'' s'"
    using 5 by (rule clamp_field_within [rotated]) (simp add: bounds_defs)
  have "field_within MIN_NOISE_SUPPRESSION MAX_NOISE_SUPPRESSION ''noise_suppression_strength'' s2"
    by (rule field_within_other [OF a 2]) simp
  then have "field_within MIN_NOISE_SUPPRESSION MAX_NOISE_SUPPRESSION ''noise_suppression_strength'' s3"
    by (rule field_within_other [OF _ 3]) simp
  then have "field_within MIN_NOISE_SUPPRESSION MAX_NOISE_SUPPRESSION ''noise_suppression_strength'' s4"
    by (rule field_within_other [OF _ 4]) simp
  then have a': "field_within MIN_NOISE_SUPPRESSION MAX_NOISE_SUPPRESSION ''noise_suppression_strength'' s'"
    by (rule field_within_other [OF _ 5]) simp
  have "field_within MIN_SPEECH_ENHANCEMENT MAX_SPEECH_ENHANCEMENT ''speech_enhancement_strength'' s3"
    by (rule field_within_other [OF b 3]) simp
  then have "field_within MIN_SPEECH_ENHANCEMENT MAX_SPEECH_ENHANCEMENT ''speech_enhancement_strength'' s4"
    by (rule field_within_other [OF _ 4]) simp
  then have b': "field_within MIN_SPEECH_ENHANCEMENT MAX_SPEECH_ENHANCEMENT ''speech_enhancement_strength'' s'"
    by (rule field_within_other [OF _ 5]) simp
  have "field_within MIN_COMPRESSION_RATIO MAX_COMPRESSION_RATIO ''compression_ratio'' s4"
    by (rule field_within_other [OF c 4]) simp
  then have c': "field_within MIN_COMPRESSION_RATIO MAX_COMPRESSION_RATIO ''compression_ratio'' s'"
    by (rule field_within_other [OF _ 5]) simp
  have d': "field_within MIN_HIGH_FREQ_BOOST MAX_HIGH_FREQ_BOOST ''high_freq_boost_db'' s'"
    by (rule field_within_other [OF d 5]) simp
  show ?thesis
    unfolding clamped_def using a' b' c' d' e by simp
qed

lemma apply_safety_bounds_fix:
  "clamped s \<Longrightarrow> apply_safety_bounds s = Inr s"
  by (simp add: clamped_def apply_safety_bounds_def ebind_def clamp_field_fix)

lemma apply_safety_bounds_other:
  assumes "apply_safety_bounds s = Inr s'" and "k \<notin> set clamped_fields"
  shows "map_of s' k = map_of s k"
proof -
  from assms(1) obtain s1 s2 s3 s4 where
    1: "clamp_field MIN_NOISE_SUPPRESSION MAX_NOISE_SUPPRESSION ''noise_suppression_strength'' 0.5 s = Inr s1" and
    2: "clamp_field MIN_SPEECH_ENHANCEMENT MAX_SPEECH_ENHANCEMENT ''speech_enhancement_strength'' 0.0 s1 = Inr s2" and
    3: "clamp_field MIN_COMPRESSION_RATIO MAX_COMPRESSION_RATIO ''compression_ratio'' 1.0 s2 = Inr s3" and
    4: "clamp_field MIN_HIGH_FREQ_BOOST MAX_HIGH_FREQ_BOOST ''high_freq_boost_db'' 0.0 s3 = Inr s4" and
    5: "clamp_field MIN_LOW_FREQ_REDUCTION MAX_LOW_FREQ_REDUCTION ''low_freq_reduction_db'' 0.0 s4 = Inr s'"
    by (rule apply_safety_bounds_steps)
  from assms(2) have ne: "k \<noteq> ''noise_suppression_strength''" "k \<noteq> ''speech_enhancement_strength''"
     "k \<noteq> ''compression_ratio''" "k \<noteq> ''high_freq_boost_db''" "k \<noteq> ''low_freq_reduction_db''"
    by (auto simp: clamped_fields_def)
  have "map_of s' k = map_of s4 k" using 5 ne(5) by (rule clamp_field_other)
  also have "\<dots> = map_of s3 k" using 4 ne(4) by (rule clamp_field_other)
  also have "\<dots> = map_of s2 k" using 3 ne(3) by (rule clamp_field_other)
  also have "\<dots> = map_of s1 k" using 2 ne(2) by (rule clamp_field_other)
  also have "\<dots> = map_of s k" using 1 ne(1) by (rule clamp_field_other)
  finally show ?thesis .
qed

lemma apply_safety_bounds_idempotent:
  "ebind (apply_safety_bounds s) apply_safety_bounds = apply_safety_bounds s"
proof (cases "apply_safety_bounds s")
  case (Inl e)
  then show ?thesis by (simp add: ebind_def)
next
  case (Inr s')
  then have "apply_safety_bounds s' = Inr s'"
    by (intro apply_safety_bounds_fix apply_safety_bounds_clamped)
  with Inr show ?thesis by (simp add: ebind_def)
qed

lemma short_duration_kept:
  "apply_safety_bounds short_duration_strategy = Inr short_duration_strategy"
  by code_simp

lemma short_duration_still_unsafe:
  "validate_strategy py short_duration_strategy
     = Inr \<lparr>is_safe = False, violations = [DurationTooShort 5], warnings = [],
            message = SafetyFailed 1 0\<rparr>"
  by code_simp

lemma test_strategy_bounded:
  "apply_safety_bounds test_apply_safety_bounds_strategy
     = Inr [(''noise_suppression_strength'', PFloat 0.95),
            (''speech_enhancement_level'', PFloat (- 0.5)),
            (''dynamic_range_compression_ratio'', PFloat 15.0),
            (''high_frequency_boost'', PFloat 20.0),
            (''low_frequency_reduction'', PFloat (- 20.0)),
            (''adaptive_gain'', PFloat 0.5),
            (''noise_gate_threshold'', PFloat (- 40.0)),
            (''speech_enhancement_strength'', PFloat 0.0),
            (''compression_ratio'', PFloat 1.0),
            (''high_freq_boost_db'', PFloat 0.0),
            (''low_freq_reduction_db'', PFloat 0.0)]"
  by code_simp

text \<open>
  Claim C6. \<open>apply_safety_bounds\<close> is idempotent, as the claim says: a second application
  returns what the first returned, and raises what the first raised. The claim also wants
  every numeric field of the result within its documented bound, and there the code falls
  short of its own bounds: it clamps five keys and no other. A strategy with a duration of
  5 seconds is returned as it is and \<open>validate_strategy\<close> still rejects it; for the
  strategy of the repository's own test, the speech enhancement level of -0.5, the
  compression ratio of 15 and the high frequency boost of 20 come back unchanged.
\<close>

theorem apply_safety_bounds_leaves_bounds_unenforced:
  "ebind (apply_safety_bounds s) apply_safety_bounds = apply_safety_bounds s
   \<and> apply_safety_bounds short_duration_strategy = Inr short_duration_strategy
   \<and> map_of short_duration_strategy ''duration_seconds'' = Some (PInt 5)
   \<and> 5 < MIN_DECISION_DURATION
   \<and> validate_strategy py short_duration_strategy
       = Inr \<lparr>is_safe = False, violations = [DurationTooShort 5], warnings = [],
              message = SafetyFailed 1 0\<rparr>
   \<and> apply_safety_bounds test_apply_safety_bounds_strategy
       = Inr [(''noise_suppression_strength'', PFloat 0.95),
              (''speech_enhancement_level'', PFloat (- 0.5)),
              (''dynamic_range_compression_ratio'', PFloat 15.0),
              (''high_frequency_boost'', PFloat 20.0),
              (''low_frequency_reduction'', PFloat (- 20.0)),
              (''adaptive_gain'', PFloat 0.5),
              (''noise_gate_threshold'', PFloat (- 40.0)),
              (''speech_enhancement_strength'', PFloat 0.0),
              (''compression_ratio'', PFloat 1.0),
              (''high_freq_boost_db'', PFloat 0.0),
              (''low_freq_reduction_db'', PFloat 0.0)]"
  using apply_safety_bounds_idempotent [of s] short_duration_kept short_duration_still_unsafe
    test_strategy_bounded
  by (simp add: short_duration_strategy_def MIN_DECISION_DURATION_def)

section \<open>DecisionEngine: effectiveness\<close>

lemma clamp_unit_range: "- 1 \<le> max (- 1) (min 1 (x::real)) \<and> max (- 1) (min 1 x) \<le> 1"
  by (simp add: max_def min_def)

lemma compute_effectiveness_value:
  "py_number (dict_get outcome ''asr_confidence_change'' (PInt 0)) = Inr a \<Longrightarrow>
   compute_effectiveness outcome sat
     = Inr (effectiveness_formula a sat (truthy (dict_get outcome ''user_override'' (PBool False))))"
  by (cases sat) (simp_all add: compute_effectiveness_def effectiveness_formula_def ebind_def Let_def algebra_simps)

lemma compute_effectiveness_range:
  "compute_effectiveness outcome sat = Inr e \<Longrightarrow> - 1 \<le> e \<and> e \<le> 1"
  unfolding compute_effectiveness_def ebind_def Let_def
  by (auto split: sum.splits simp: max_def min_def)

lemma positive_outcome_value: "compute_effectiveness positive_outcome (Some 85) = Inr 0.785"
  by (simp add: compute_effectiveness_def positive_outcome_def dict_get_def ebind_def Let_def)

lemma negative_outcome_value: "compute_effectiveness negative_outcome (Some 25) = Inr 0"
  by (simp add: compute_effectiveness_def negative_outcome_def dict_get_def ebind_def Let_def)

text \<open>
  Claim C7. When the outcome's \<open>asr_confidence_change\<close> is a number (or is absent, which
  reads as 0), the effectiveness signal is the clamp to [-1, 1] of 0.5 plus half the change,
  plus 0.3 times (satisfaction - 50) / 50 when a satisfaction is given, minus 0.3 when the
  outcome flags a user override. Every signal returned lies in [-1, 1]. A change of 0.15
  without override and a satisfaction of 85 give more than 0.5; a change of -0.10 with
  override and a satisfaction of 25 give less than 0.5.
\<close>

theorem compute_effectiveness_signal:
  "(py_number (dict_get outcome ''asr_confidence_change'' (PInt 0)) = Inr a \<longrightarrow>
      compute_effectiveness outcome sat
        = Inr (effectiveness_formula a sat (truthy (dict_get outcome ''user_override'' (PBool False)))))
   \<and> (\<forall>e. compute_effectiveness outcome sat = Inr e \<longrightarrow> - 1 \<le> e \<and> e \<le> 1)
   \<and> (\<exists>e. compute_effectiveness positive_outcome (Some 85) = Inr e \<and> e > 0.5)
   \<and> (\<exists>e. compute_effectiveness negative_outcome (Some 25) = Inr e \<and> e < 0.5)"
proof -
  have p: "\<exists>e. compute_effectiveness positive_outcome (Some 85) = Inr e \<and> e > 0.5"
    by (rule exI [of _ "0.785"]) (simp add: positive_outcome_value)
  have n: "\<exists>e. compute_effectiveness negative_outcome (Some 25) = Inr e \<and> e < 0.5"
    by (rule exI [of _ 0]) (simp add: negative_outcome_value)
  from compute_effectiveness_value [of outcome a sat] compute_effectiveness_range [of outcome sat] p n
  show ?thesis
    by blast
qed

theorem compute_effectiveness_signal_witness:
  "py_number (dict_get positive_outcome ''asr_confidence_change'' (PInt 0)) = Inr 0.15
   \<and> compute_effectiveness positive_outcome (Some 85) = Inr (effectiveness_formula 0.15 (Some 85) False)
   \<and> effectiveness_formula 0.15 (Some 85) False = 0.785"
proof -
  have h: "py_number (dict_get positive_outcome ''asr_confidence_change'' (PInt 0)) = Inr 0.15"
    by (simp add: positive_outcome_def dict_get_def)
  have o: "truthy (dict_get positive_outcome ''user_override'' (PBool False)) = False"
    by (simp add: positive_outcome_def dict_get_def)
  have v: "effectiveness_formula 0.15 (Some 85) False = 0.785"
    by (simp add: effectiveness_formula_def)
  from compute_effectiveness_signal [of positive_outcome "0.15" "Some 85"] h o v show ?thesis
    by simp
qed

section \<open>DecisionEngine: history\<close>

lemma record_decision_history:
  assumes "to_llm_context b f = Inr ctx"
  shows "\<exists>e' r. record_decision b e f d p fb = Inr e' \<and> decision r = d \<and> audio_context r = ctx
           \<and> decision_history e'
               = (let h = decision_history e @ [RecordEntry r]
                  in if length h > 10000 then drop (length h - 5000) h else h)
           \<and> enable_safety e' = enable_safety e"
  using assms by (simp add: record_decision_def ebind_def Let_def)

lemma record_decision_raises:
  "to_llm_context b f = Inl err \<Longrightarrow> record_decision b e f d p fb = Inl err"
  by (simp add: record_decision_def ebind_def)

lemma record_decision_bounded:
  assumes "record_decision b e f d p fb = Inr e'" and "length (decision_history e) \<le> 10000"
  shows "length (decision_history e') \<le> 10000"
  using assms unfolding record_decision_def ebind_def Let_def
  by (auto split: sum.splits)

lemma record_all_bounded:
  "record_all b e inputs = Inr e' \<Longrightarrow> length (decision_history e) \<le> 10000 \<Longrightarrow>
   length (decision_history e') \<le> 10000"
proof (induction inputs arbitrary: e)
  case Nil
  then show ?case by simp
next
  case (Cons x rest)
  obtain f d p fb where x: "x = (f, d, p, fb)"
    by (cases x) auto
  from Cons.prems(1) obtain e1 where
    1: "record_decision b e f d p fb = Inr e1" and 2: "record_all b e1 rest = Inr e'"
    by (auto simp: x ebind_def split: sum.splits)
  from 1 Cons.prems(2) have "length (decision_history e1) \<le> 10000"
    by (rule record_decision_bounded)
  with 2 show ?case
    by (rule Cons.IH)
qed

text \<open>
  Claim C9. \<open>_record_decision\<close> appends one record. When the history then holds more
  than 10000 entries it is cut to its last 5000, in their order, the new record last;
  otherwise it is the old history with the record appended. A history of at most 10000
  entries stays so over every further sequence of recorded decisions.
\<close>

theorem record_decision_trims_history:
  assumes "to_llm_context b f = Inr ctx"
  shows "\<exists>e' r. record_decision b e f d p fb = Inr e' \<and> decision r = d
           \<and> (length (decision_history e) \<ge> 10000 \<longrightarrow>
                decision_history e'
                  = drop (length (decision_history e) + 1 - 5000) (decision_history e @ [RecordEntry r])
                \<and> length (decision_history e') = 5000
                \<and> suffix (decision_history e') (decision_history e @ [RecordEntry r])
                \<and> last (decision_history e') = RecordEntry r)
           \<and> (length (decision_history e) < 10000 \<longrightarrow>
                decision_history e' = decision_history e @ [RecordEntry r])
           \<and> (length (decision_history e) \<le> 10000 \<longrightarrow>
                (\<forall>inputs e''. record_all b e' inputs = Inr e'' \<longrightarrow>
                   length (decision_history e'') \<le> 10000))"
proof -
  from record_decision_history [OF assms, of e d p fb] obtain e' r where
    ret: "record_decision b e f d p fb = Inr e'" and dec: "decision r = d" and
    hist: "decision_history e'
             = (let h = decision_history e @ [RecordEntry r]
                in if length h > 10000 then drop (length h - 5000) h else h)"
    by blast
  let ?h = "decision_history e @ [RecordEntry r]"
  have big: "decision_history e' = drop (length (decision_history e) + 1 - 5000) ?h"
    if "length (decision_history e) \<ge> 10000"
    using that hist by (simp add: Let_def)
  have len: "length (decision_history e') = 5000" if "length (decision_history e) \<ge> 10000"
    using big [OF that] that by simp
  have suf: "suffix (decision_history e') ?h" if "length (decision_history e) \<ge> 10000"
    unfolding big [OF that] by (rule suffix_drop)
  have lst: "last (decision_history e') = RecordEntry r" if "length (decision_history e) \<ge> 10000"
    unfolding big [OF that] using that by simp
  have small: "decision_history e' = ?h" if "length (decision_history e) < 10000"
    using that hist by (simp add: Let_def)
  have bound: "length (decision_history e'') \<le> 10000"
    if "length (decision_history e) \<le> 10000" and "record_all b e' inputs = Inr e''" for inputs e''
  proof -
    from ret that(1) have "length (decision_history e') \<le> 10000"
      by (rule record_decision_bounded)
    with that(2) show ?thesis
      by (rule record_all_bounded)
  qed
  from ret dec big len suf lst small bound show ?thesis
    by blast
qed

lemma quiet_context:
  "to_llm_context py quiet_features
     = Inr ''Environment: Silent or very quiet | Speech: Not detected (20% confidence) | Sound event: silence''"
  by code_simp

theorem record_decision_trims_history_witness:
  "to_llm_context py quiet_features
     = Inr ''Environment: Silent or very quiet | Speech: Not detected (20% confidence) | Sound event: silence''
   \<and> length (decision_history full_engine) \<ge> 10000
   \<and> (\<exists>e'. record_decision py full_engine quiet_features complete_strategy [] None = Inr e'
          \<and> length (decision_history e') = 5000)"
proof -
  have l: "length (decision_history full_engine) \<ge> 10000"
    by (simp add: full_engine_def)
  from record_decision_trims_history [OF quiet_context, of full_engine complete_strategy "[]" None] l
  show ?thesis
    using quiet_context by blast
qed

section \<open>DecisionEngine: the two decision paths\<close>

lemma fallback_structural:
  "MissingField ''rationale'' \<in> set (structural_violations b (primary_action (fallback_conservative_decision now)))"
  by (simp add: structural_violations_def Let_def required_fields_def dict_has_def
        fallback_conservative_decision_def)

lemma fallback_unsafe:
  "\<exists>c. validate_strategy b (primary_action (fallback_conservative_decision now)) = Inr c
       \<and> \<not> is_safe c \<and> MissingField ''rationale'' \<in> set (violations c)"
proof -
  have "structural_violations b (primary_action (fallback_conservative_decision now)) \<noteq> []"
    using fallback_structural [of b now] by auto
  then show ?thesis
    using fallback_structural [of b now] by (simp add: validate_structural)
qed

lemma parsed_candidate_unsafe:
  assumes "parse_strategy_recommendation b llm_output = Inr candidate"
  shows "\<exists>c. validate_strategy b candidate = Inr c \<and> \<not> is_safe c"
proof -
  from assms have "\<not> dict_has candidate ''rationale''"
    unfolding parse_strategy_recommendation_def ebind_def
    by (auto split: sum.splits simp: dict_has_def)
  then have "MissingField ''rationale'' \<in> set (structural_violations b candidate)"
    by (simp add: structural_violations_def Let_def required_fields_def)
  then have "structural_violations b candidate \<noteq> []"
    by auto
  then show ?thesis
    by (simp add: validate_structural)
qed

lemma oral_falls_back:
  assumes "validate_strategy b (primary_action candidate) = Inr c" and "\<not> is_safe c"
  shows "\<exists>c' e'. decide_strategy_oral b e candidate now
                   = Inr ((fallback_conservative_decision now, c'), e')
           \<and> validate_strategy b (primary_action (fallback_conservative_decision now)) = Inr c'
           \<and> \<not> is_safe c'
           \<and> MissingField ''rationale'' \<in> set (violations c')"
proof -
  from fallback_unsafe [of b now] obtain c' where
    v: "validate_strategy b (primary_action (fallback_conservative_decision now)) = Inr c'" and
    u: "\<not> is_safe c'" and m: "MissingField ''rationale'' \<in> set (violations c')"
    by blast
  have "decide_strategy_oral b e candidate now
          = Inr ((fallback_conservative_decision now, c'),
                 e\<lparr>decision_history := decision_history e @ [DecisionEntry (fallback_conservative_decision now)],
                   last_decision_time := Some now\<rparr>)"
    using assms v by (simp add: decide_strategy_oral_def ebind_def Let_def)
  then show ?thesis
    using v u m by blast
qed

text \<open>
  Claim C1. When the candidate fails validation, the cycle emits the conservative fallback,
  which is reversible and lasts 10 seconds. The claim also wants the fallback's
  \<open>primary_action\<close> to pass \<open>validate_strategy\<close>; it does not: the dictionary has no
  \<open>rationale\<close>, \<open>confidence\<close>, \<open>duration_seconds\<close> or \<open>is_reversible\<close> key (they are
  fields of the \<open>Decision\<close>), so the check that the cycle returns with it is unsafe.
\<close>

theorem oral_cycle_fallback_fails_validation:
  assumes "validate_strategy b (primary_action candidate) = Inr c" and "\<not> is_safe c"
  shows "\<exists>c' e'. decide_strategy_oral b e candidate now
                   = Inr ((fallback_conservative_decision now, c'), e')
           \<and> validate_strategy b (primary_action (fallback_conservative_decision now)) = Inr c'
           \<and> \<not> is_safe c'
           \<and> MissingField ''rationale'' \<in> set (violations c')
           \<and> is_reversible (fallback_conservative_decision now)
           \<and> duration_seconds (fallback_conservative_decision now) \<ge> 10"
proof -
  have "is_reversible (fallback_conservative_decision now)"
    and "duration_seconds (fallback_conservative_decision now) \<ge> 10"
    by (simp_all add: fallback_conservative_decision_def MIN_ACTION_DURATION_SECONDS_def)
  with oral_falls_back [OF assms, of e now] show ?thesis
    by blast
qed

lemma reasoned_candidate_parsed:
  "parse_strategy_recommendation b call_llm_reasoning = Inr (primary_action reasoned_candidate)"
  by (simp add: parse_strategy_recommendation_def call_llm_reasoning_def reasoned_candidate_def
        dict_get_def ebind_def)

lemma reasoned_candidate_check:
  "validate_strategy py (primary_action reasoned_candidate)
     = Inr \<lparr>is_safe = False,
            violations = [MissingField ''rationale'', MissingField ''confidence'',
                          MissingField ''duration_seconds'', MissingField ''is_reversible''],
            warnings = [], message = FailedCritical 4\<rparr>"
  by code_simp

theorem oral_cycle_fallback_fails_validation_witness:
  "validate_strategy py (primary_action reasoned_candidate)
     = Inr \<lparr>is_safe = False,
            violations = [MissingField ''rationale'', MissingField ''confidence'',
                          MissingField ''duration_seconds'', MissingField ''is_reversible''],
            warnings = [], message = FailedCritical 4\<rparr>
   \<and> (\<exists>c' e'. decide_strategy_oral py idle_engine reasoned_candidate ''2024-01-01T12:00:01''
                  = Inr ((fallback_conservative_decision ''2024-01-01T12:00:01'', c'), e')
          \<and> \<not> is_safe c')"
proof -
  have "\<not> is_safe \<lparr>is_safe = False,
            violations = [MissingField ''rationale'', MissingField ''confidence'',
                          MissingField ''duration_seconds'', MissingField ''is_reversible''],
            warnings = [], message = FailedCritical 4\<rparr>"
    by simp
  from oral_cycle_fallback_fails_validation [OF reasoned_candidate_check this,
      of idle_engine "''2024-01-01T12:00:01''"]
  show ?thesis
    using reasoned_candidate_check by blast
qed

text \<open>
  Claim C3. The claim wants \<open>decide_strategy\<close> to discard a candidate with a numeric
  field out of range and to return the conservative fallback. The \<open>decide_strategy\<close> in
  force returns nothing: building the prompt raises \<open>AttributeError\<close> on every
  \<open>AudioFeatureSet\<close>, before the candidate is validated. The recovery written after it
  is \<open>apply_safety_bounds\<close>; the fallback is substituted only by the definition this one
  replaces (\<open>oral_falls_back\<close>).
\<close>

theorem decide_strategy_raises_before_validation:
  "decide_strategy b e features candidate profile = Inl AttributeError
   \<and> decide_strategy py idle_engine quiet_features out_of_range_candidate [] = Inl AttributeError"
  by (simp add: decide_strategy_def build_audio_context_prompt_def ebind_def)

section \<open>NumPy operations: shapes\<close>

lemma rfft_returns:
  "xs \<noteq> [] \<Longrightarrow> \<exists>X. rfft xs = Inr X \<and> length X = length xs div 2 + 1"
  by (simp add: rfft_def Let_def)

lemma rfft_empty: "rfft [] = Inl ValueError"
  by (simp add: rfft_def)

lemma irfft_returns:
  "n \<noteq> 0 \<Longrightarrow> \<exists>ys. irfft X n = Inr ys \<and> length ys = n"
  by (simp add: irfft_def Let_def)

lemma rfftfreq_returns:
  "n \<noteq> 0 \<Longrightarrow> sr \<noteq> 0 \<Longrightarrow> \<exists>fs. rfftfreq n sr = Inr fs \<and> length fs = n div 2 + 1"
  by (simp add: rfftfreq_def)

lemma np_convolve_same_returns:
  "a \<noteq> [] \<Longrightarrow> v \<noteq> [] \<Longrightarrow>
   \<exists>r. np_convolve_same a v = Inr r \<and> length r = max (length a) (length v)"
proof -
  assume "a \<noteq> []" and "v \<noteq> []"
  then have pos: "0 < length a" "0 < length v"
    by simp_all
  let ?n = "min (length a) (length v)" and ?m = "max (length a) (length v)"
  have k: "(?n - 1) div 2 \<le> ?n - 1"
    by simp
  have "length a + length v - 1 = ?m + (?n - 1)"
    using pos by (cases a; cases v) (simp_all add: max_def min_def)
  with k have "?m \<le> length a + length v - 1 - (?n - 1) div 2"
    by linarith
  then have "length (take ?m (drop ((?n - 1) div 2) (convolve_full a v))) = ?m"
    by (simp add: convolve_full_def)
  then show ?thesis
    using \<open>a \<noteq> []\<close> \<open>v \<noteq> []\<close> by (simp add: np_convolve_same_def Let_def)
qed

lemma np_multiply_same:
  "length xs = length ys \<Longrightarrow> \<exists>r. np_multiply xs ys = Inr r \<and> length r = length xs"
  by (simp add: np_multiply_def)

lemma np_multiply_mismatch:
  "length xs \<noteq> length ys \<Longrightarrow> length xs \<noteq> 1 \<Longrightarrow> length ys \<noteq> 1 \<Longrightarrow>
   np_multiply xs ys = Inl ValueError"
  by (simp add: np_multiply_def)

lemma np_clip_range:
  "lo \<le> hi \<Longrightarrow> x \<in> set (np_clip lo hi xs) \<Longrightarrow> lo \<le> x \<and> x \<le> hi"
  by (auto simp: np_clip_def min_def max_def)

lemma np_clip_length: "length (np_clip lo hi xs) = length xs"
  by (simp add: np_clip_def)

section \<open>AudioFeatureExtractor\<close>

lemma compute_spectral_centroid_returns:
  "signal \<noteq> [] \<Longrightarrow> sr \<noteq> 0 \<Longrightarrow> \<exists>c. compute_spectral_centroid sr signal = Inr c"
proof -
  assume "signal \<noteq> []" and "sr \<noteq> 0"
  then obtain X fs where "rfft signal = Inr X" and "rfftfreq (length signal) sr = Inr fs"
    using rfft_returns [of signal] rfftfreq_returns [of "length signal" sr] by auto
  then show ?thesis
    unfolding compute_spectral_centroid_def ebind_def Let_def by simp
qed

lemma compute_spectral_rolloff_returns:
  "signal \<noteq> [] \<Longrightarrow> sr \<noteq> 0 \<Longrightarrow> \<exists>c. compute_spectral_rolloff sr signal = Inr c"
proof -
  assume "signal \<noteq> []" and "sr \<noteq> 0"
  then obtain X fs where "rfft signal = Inr X" and "rfftfreq (length signal) sr = Inr fs"
    using rfft_returns [of signal] rfftfreq_returns [of "length signal" sr] by auto
  then show ?thesis
    unfolding compute_spectral_rolloff_def ebind_def Let_def by simp
qed

lemma estimate_speech_probability_returns:
  "signal \<noteq> [] \<Longrightarrow> sr \<noteq> 0 \<Longrightarrow> \<exists>p. estimate_speech_probability sr signal = Inr p"
proof -
  assume "signal \<noteq> []" and "sr \<noteq> 0"
  then obtain c where c: "compute_spectral_centroid sr signal = Inr c"
    using compute_spectral_centroid_returns by blast
  show ?thesis
    unfolding estimate_speech_probability_def c ebind_def Let_def sum.case by blast
qed

lemma classify_noise_returns:
  "signal \<noteq> [] \<Longrightarrow> sr \<noteq> 0 \<Longrightarrow> \<exists>t. classify_noise sr signal = Inr t"
proof -
  assume "signal \<noteq> []" and "sr \<noteq> 0"
  then obtain c where c: "compute_spectral_centroid sr signal = Inr c"
    using compute_spectral_centroid_returns by blast
  show ?thesis
    unfolding classify_noise_def c ebind_def sum.case by blast
qed

lemma classify_sound_event_returns:
  "signal \<noteq> [] \<Longrightarrow> sr \<noteq> 0 \<Longrightarrow>
   \<exists>t. classify_sound_event sr signal = Inr t
       \<and> (np_less (estimate_noise_level signal) 30 \<longrightarrow> t = ''silence'')"
proof -
  assume "signal \<noteq> []" and "sr \<noteq> 0"
  then obtain p where p: "estimate_speech_probability sr signal = Inr p"
    using estimate_speech_probability_returns by blast
  show ?thesis
    unfolding classify_sound_event_def p ebind_def Let_def sum.case by simp
qed

lemma log10_floor: "20 * log 10 (1 / 10 ^ 10) = (- 200 :: real)"
proof -
  have "log 10 ((10::real) ^ 10) = real 10 * log 10 10"
    by (rule log_nat_power) simp
  then have "log 10 ((10::real) ^ 10) = 10"
    by simp
  moreover have "log 10 (1 / (10::real) ^ 10) = - log 10 ((10::real) ^ 10)"
    by (simp add: log_divide)
  ultimately show ?thesis
    by simp
qed

lemma estimate_noise_level_silent:
  assumes "signal \<noteq> []" and "\<forall>x \<in> set signal. x = 0"
  shows "estimate_noise_level signal = Fin (- 200)"
proof -
  have "sum_list (map (\<lambda>x. x ^ 2) signal) = 0"
    using assms(2) by (induction signal) auto
  then have "np_mean (map (\<lambda>x. x ^ 2) signal) = Fin 0"
    using assms(1) by (simp add: np_mean_def)
  then show ?thesis
    using log10_floor by (simp add: estimate_noise_level_def max_def)
qed

text \<open>
  Claim C8. For a waveform of at least one sample and a non-zero sample rate,
  \<open>extract_features\<close> returns a feature set in which the speech flag holds exactly when
  the speech probability exceeds 0.5 and the silence flag exactly when the noise level is
  below 30. When every sample is zero, the noise level is \<open>20 * log10(1e-10) = -200\<close>, which is
  below 30, the silence flag is set and the sound event is \<open>silence\<close>.
\<close>

theorem extract_features_flags:
  assumes "audio_signal \<noteq> []" and "sr \<noteq> 0"
  shows "\<exists>f. extract_features sr audio_signal duration = Inr f
           \<and> (\<exists>p. speech_probability f = Some p \<and> (is_speech_present f \<longleftrightarrow> p > 0.5))
           \<and> (\<exists>l. noise_level_db f = Some l \<and> (is_silence f \<longleftrightarrow> np_less l 30))
           \<and> ((\<forall>x \<in> set audio_signal. x = 0) \<longrightarrow>
                 noise_level_db f = Some (Fin (- 200)) \<and> np_less (Fin (- 200)) 30
                 \<and> is_silence f \<and> sound_event_class f = Some ''silence'')"
proof -
  obtain dur where dur:
    "(case duration of
        None \<Rightarrow> if sr = 0 then Inl ZeroDivisionError
                else Inr (real (length audio_signal) / real_of_int sr * 1000)
      | Some d \<Rightarrow> Inr d) = Inr dur"
    using assms(2) by (cases duration) auto
  obtain c where c: "compute_spectral_centroid sr audio_signal = Inr c"
    using compute_spectral_centroid_returns [OF assms] by blast
  obtain r where r: "compute_spectral_rolloff sr audio_signal = Inr r"
    using compute_spectral_rolloff_returns [OF assms] by blast
  obtain p where p: "estimate_speech_probability sr audio_signal = Inr p"
    using estimate_speech_probability_returns [OF assms] by blast
  obtain t where t: "classify_noise sr audio_signal = Inr t"
    using classify_noise_returns [OF assms] by blast
  obtain ev where ev: "classify_sound_event sr audio_signal = Inr ev"
    and sil: "np_less (estimate_noise_level audio_signal) 30 \<longrightarrow> ev = ''silence''"
    using classify_sound_event_returns [OF assms] by blast
  let ?f = "(new_feature_set sr)
                \<lparr>duration_ms := Some dur,
                 spectral_centroid := Some c,
                 spectral_rolloff := Some r,
                 zero_crossing_rate := Some (compute_zcr audio_signal),
                 onset_strength := Some (compute_onset_strength audio_signal),
                 noise_level_db := Some (estimate_noise_level audio_signal),
                 speech_probability := Some p,
                 is_silence := np_less (estimate_noise_level audio_signal) 30,
                 is_speech_present := (p > 0.5),
                 noise_type := Some t,
                 sound_event_class := Some ev\<rparr>"
  have ret: "extract_features sr audio_signal duration = Inr ?f"
    unfolding extract_features_def by (simp add: dur c r p t ev ebind_def Let_def)
  have zero: "noise_level_db ?f = Some (Fin (- 200)) \<and> np_less (Fin (- 200)) 30
                 \<and> is_silence ?f \<and> sound_event_class ?f = Some ''silence''"
    if "\<forall>x \<in> set audio_signal. x = 0"
  proof -
    have l: "estimate_noise_level audio_signal = Fin (- 200)"
      using assms(1) that by (rule estimate_noise_level_silent)
    have "np_less (Fin (- 200)) 30"
      by (simp add: np_less_def)
    with l sil show ?thesis by simp
  qed
  show ?thesis
    by (rule exI [of _ ?f]) (use ret zero in simp)
qed

theorem extract_features_flags_witness:
  "[0, 0, 0, 0] \<noteq> ([] :: real list) \<and> (16000 :: int) \<noteq> 0
   \<and> (\<exists>f. extract_features 16000 [0, 0, 0, 0] None = Inr f
          \<and> noise_level_db f = Some (Fin (- 200)) \<and> is_silence f
          \<and> sound_event_class f = Some ''silence'')"
  using extract_features_flags [of "[0, 0, 0, 0]" 16000 None] by auto

text \<open>
  Claim C5. The claim wants a feature set with defaults for an empty signal. The first
  transform the extractor calls, \<open>np.fft.rfft\<close>, raises \<open>ValueError\<close> on an empty array,
  before the guards for an empty spectrum in the centroid and the rolloff are reached, so
  \<open>extract_features\<close> raises (\<open>ZeroDivisionError\<close> instead when it has to compute the
  duration with a sample rate of 0).
\<close>

theorem extract_features_raises_on_empty:
  "extract_features sr [] duration
     = Inl (if duration = None \<and> sr = 0 then ZeroDivisionError else ValueError)
   \<and> extract_features 16000 [] None = Inl ValueError"
  by (cases duration)
     (simp_all add: extract_features_def compute_spectral_centroid_def rfft_empty ebind_def)

section \<open>AudioProcessor: shapes of the stages\<close>

lemma apply_noise_suppression_returns:
  assumes "signal \<noteq> []"
  shows "\<exists>p. apply_noise_suppression signal strength = Inr p \<and> length p = length signal"
proof -
  from rfft_returns [OF assms] obtain X where X: "rfft signal = Inr X"
    by blast
  from assms have "length signal \<noteq> 0"
    by simp
  then show ?thesis
    unfolding apply_noise_suppression_def X ebind_def Let_def sum.case
    by (rule irfft_returns)
qed

lemma gate_smooth_returns:
  assumes "100 \<le> length g"
  shows "\<exists>r. np_convolve_same g (replicate 100 c) = Inr r \<and> length r = length g"
proof -
  from assms have "g \<noteq> []"
    by auto
  moreover have "replicate 100 c \<noteq> []"
    by simp
  ultimately obtain r where "np_convolve_same g (replicate 100 c) = Inr r"
    and "length r = max (length g) (length (replicate 100 c))"
    using np_convolve_same_returns by blast
  then show ?thesis
    using assms by (simp add: max_def)
qed

lemma apply_noise_gate_returns:
  assumes "100 \<le> length signal"
  shows "\<exists>p. apply_noise_gate signal threshold_db = Inr p \<and> length p = length signal"
proof -
  let ?gate = "map (\<lambda>x. if \<bar>x\<bar> > 10 powr (threshold_db / 20) * 0.1 then 1.0 else 0.0 :: real) signal"
  from assms have "100 \<le> length ?gate"
    by simp
  from gate_smooth_returns [OF this, of "1 / 100"] obtain r where
    r: "np_convolve_same ?gate (replicate 100 (1 / 100)) = Inr r" and l: "length r = length signal"
    by auto
  from np_multiply_same [of signal r] l obtain p where
    "np_multiply signal r = Inr p" and "length p = length signal"
    by auto
  then show ?thesis
    unfolding apply_noise_gate_def Let_def r ebind_def sum.case by blast
qed

lemma apply_noise_gate_short:
  assumes "1 < length signal" and "length signal < 100"
  shows "apply_noise_gate signal threshold_db = Inl ValueError"
proof -
  let ?gate = "map (\<lambda>x. if \<bar>x\<bar> > 10 powr (threshold_db / 20) * 0.1 then 1.0 else 0.0 :: real) signal"
  from assms have "?gate \<noteq> []"
    by auto
  moreover have "replicate 100 (1 / 100 :: real) \<noteq> []"
    by simp
  ultimately obtain r where
    r: "np_convolve_same ?gate (replicate 100 (1 / 100)) = Inr r" and
    "length r = max (length ?gate) (length (replicate 100 (1 / 100 :: real)))"
    using np_convolve_same_returns by blast
  then have l: "length r = 100"
    using assms by (simp add: max_def)
  have "np_multiply signal r = Inl ValueError"
    using assms l by (intro np_multiply_mismatch) simp_all
  then show ?thesis
    unfolding apply_noise_gate_def Let_def r ebind_def sum.case by simp
qed

lemma apply_noise_gate_single:
  assumes "length signal = 1"
  shows "\<exists>p. apply_noise_gate signal threshold_db = Inr p \<and> length p = 100"
proof -
  let ?gate = "map (\<lambda>x. if \<bar>x\<bar> > 10 powr (threshold_db / 20) * 0.1 then 1.0 else 0.0 :: real) signal"
  from assms have "?gate \<noteq> []"
    by auto
  moreover have "replicate 100 (1 / 100 :: real) \<noteq> []"
    by simp
  ultimately obtain r where
    r: "np_convolve_same ?gate (replicate 100 (1 / 100)) = Inr r" and
    "length r = max (length ?gate) (length (replicate 100 (1 / 100 :: real)))"
    using np_convolve_same_returns by blast
  then have l: "length r = 100"
    using assms by (simp add: max_def)
  have "np_multiply signal r = Inr (map (\<lambda>y. hd signal * y) r)"
    using assms l by (simp add: np_multiply_def)
  then show ?thesis
    unfolding apply_noise_gate_def Let_def r ebind_def sum.case using l by simp
qed

lemma apply_speech_enhancement_returns:
  assumes "signal \<noteq> []" and "sr \<noteq> 0"
  shows "\<exists>p. apply_speech_enhancement sr signal level = Inr p \<and> length p = length signal"
proof -
  from assms have n: "length signal \<noteq> 0"
    by simp
  from rfft_returns [OF assms(1)] obtain X where X: "rfft signal = Inr X"
    by blast
  from rfftfreq_returns [OF n assms(2)] obtain fs where fs: "rfftfreq (length signal) sr = Inr fs"
    by blast
  show ?thesis
    unfolding apply_speech_enhancement_def X fs ebind_def Let_def sum.case
    using n by (rule irfft_returns)
qed

lemma apply_compression_returns:
  assumes "50 \<le> length signal"
  shows "\<exists>p. apply_compression signal ratio = Inr p \<and> length p = length signal"
proof -
  let ?gain = "map (\<lambda>x. if \<bar>x\<bar> > 0.5 then 0.5 / (\<bar>x\<bar> / (1 / ratio - 1 + \<bar>x\<bar>)) else (1::real)) signal"
  from assms have "?gain \<noteq> []"
    by auto
  moreover have "replicate 50 (1 / 50 :: real) \<noteq> []"
    by simp
  ultimately obtain r where
    r: "np_convolve_same ?gain (replicate 50 (1 / 50)) = Inr r" and
    "length r = max (length ?gain) (length (replicate 50 (1 / 50 :: real)))"
    using np_convolve_same_returns by blast
  then have l: "length r = length signal"
    using assms by (simp add: max_def)
  from np_multiply_same [of signal r] l obtain p where
    "np_multiply signal r = Inr p" and "length p = length signal"
    by auto
  then show ?thesis
    unfolding apply_compression_def Let_def r ebind_def sum.case by blast
qed

lemma apply_frequency_emphasis_returns:
  assumes "signal \<noteq> []" and "sr \<noteq> 0"
  shows "\<exists>p. apply_frequency_emphasis sr signal emphasis_dict = Inr p \<and> length p = length signal"
proof -
  from assms have n: "length signal \<noteq> 0"
    by simp
  from rfft_returns [OF assms(1)] obtain X where X: "rfft signal = Inr X"
    by blast
  from rfftfreq_returns [OF n assms(2)] obtain fs where fs: "rfftfreq (length signal) sr = Inr fs"
    by blast
  show ?thesis
    unfolding apply_frequency_emphasis_def X fs ebind_def Let_def sum.case
    using n by (rule irfft_returns)
qed

lemma apply_frequency_adjustments_returns:
  assumes "signal \<noteq> []" and "sr \<noteq> 0"
  shows "\<exists>p. apply_frequency_adjustments sr signal hfb lfr = Inr p \<and> length p = length signal"
proof -
  from assms have n: "length signal \<noteq> 0"
    by simp
  from rfft_returns [OF assms(1)] obtain X where X: "rfft signal = Inr X"
    by blast
  from rfftfreq_returns [OF n assms(2)] obtain fs where fs: "rfftfreq (length signal) sr = Inr fs"
    by blast
  show ?thesis
    unfolding apply_frequency_adjustments_def X fs ebind_def Let_def sum.case
    using n by (rule irfft_returns)
qed

lemma first_stage_returns:
  assumes "signal \<noteq> []"
  shows "\<exists>p. (if noise_suppression_strength st > 0
              then apply_noise_suppression signal (noise_suppression_strength st)
              else Inr signal) = Inr p \<and> length p = length signal"
  using apply_noise_suppression_returns [OF assms] by simp

lemma apply_strategy_after_gate:
  assumes 1: "(if noise_suppression_strength strategy > 0
               then apply_noise_suppression signal (noise_suppression_strength strategy)
               else Inr signal) = Inr p1"
    and 2: "apply_noise_gate p1 (noise_gate_threshold strategy) = Inr p2"
    and long: "50 \<le> length p2" and rate: "sr \<noteq> 0"
  shows "\<exists>out. apply_strategy sr signal strategy = Inr out
           \<and> length out = length p2
           \<and> (\<forall>x \<in> set out. - 1 \<le> x \<and> x \<le> 1)"
proof -
  from long have ne2: "p2 \<noteq> []"
    by auto
  obtain p3 where
    3: "(if speech_enhancement_level strategy > 0
         then apply_speech_enhancement sr p2 (speech_enhancement_level strategy)
         else Inr p2) = Inr p3" and l3: "length p3 = length p2"
    using apply_speech_enhancement_returns [OF ne2 rate, of "speech_enhancement_level strategy"]
    by (cases "speech_enhancement_level strategy > 0") auto
  from l3 long have "50 \<le> length p3"
    by simp
  from apply_compression_returns [OF this, of "dynamic_range_compression_ratio strategy"]
  obtain p4 where
    4: "(if dynamic_range_compression_ratio strategy > 1.0
         then apply_compression p3 (dynamic_range_compression_ratio strategy)
         else Inr p3) = Inr p4" and l4: "length p4 = length p2"
    using l3 by (cases "dynamic_range_compression_ratio strategy > 1.0") auto
  from l4 long have ne4: "p4 \<noteq> []"
    by auto
  obtain p5 where
    5: "(case frequency_emphasis strategy of
           None \<Rightarrow> Inr p4
         | Some emphasis_dict \<Rightarrow>
             if emphasis_dict = [] then Inr p4
             else apply_frequency_emphasis sr p4 emphasis_dict) = Inr p5" and
    l5: "length p5 = length p2"
  proof (cases "frequency_emphasis strategy")
    case None
    with l4 that show ?thesis by simp
  next
    case (Some emphasis_dict)
    from apply_frequency_emphasis_returns [OF ne4 rate, of emphasis_dict] obtain q where
      "apply_frequency_emphasis sr p4 emphasis_dict = Inr q" and "length q = length p4"
      by blast
    with Some l4 that show ?thesis
      by (cases "emphasis_dict = []") simp_all
  qed
  from l5 long have ne5: "p5 \<noteq> []"
    by auto
  from apply_frequency_adjustments_returns [OF ne5 rate,
      of "high_frequency_boost strategy" "low_frequency_reduction strategy"]
  obtain p6 where
    6: "apply_frequency_adjustments sr p5 (high_frequency_boost strategy)
          (low_frequency_reduction strategy) = Inr p6" and l6: "length p6 = length p2"
    using l5 by auto
  let ?out = "np_clip (- 1.0) 1.0 (map (\<lambda>x. x * adaptive_gain strategy) p6)"
  have ret: "apply_strategy sr signal strategy = Inr ?out"
    unfolding apply_strategy_def 1 2 3 4 5 6 ebind_def sum.case ..
  have len: "length ?out = length p2"
    using l6 by (simp add: np_clip_length)
  have rng: "\<forall>x \<in> set ?out. - 1 \<le> x \<and> x \<le> 1"
    using np_clip_range [of "- 1.0" "1.0" _ "map (\<lambda>x. x * adaptive_gain strategy) p6"] by simp
  from ret len rng show ?thesis
    by blast
qed

lemma apply_strategy_same_length_clipped:
  assumes "100 \<le> length signal" and "sr \<noteq> 0"
  shows "\<exists>out. apply_strategy sr signal strategy = Inr out
           \<and> length out = length signal
           \<and> (\<forall>x \<in> set out. - 1 \<le> x \<and> x \<le> 1)"
proof -
  from assms(1) have ne: "signal \<noteq> []"
    by auto
  from first_stage_returns [OF ne, of strategy] obtain p1 where
    1: "(if noise_suppression_strength strategy > 0
         then apply_noise_suppression signal (noise_suppression_strength strategy)
         else Inr signal) = Inr p1" and l1: "length p1 = length signal"
    by blast
  from assms(1) l1 have "100 \<le> length p1"
    by simp
  from apply_noise_gate_returns [OF this, of "noise_gate_threshold strategy"] obtain p2 where
    2: "apply_noise_gate p1 (noise_gate_threshold strategy) = Inr p2" and l2: "length p2 = length signal"
    using l1 by auto
  from l2 assms(1) have "50 \<le> length p2"
    by simp
  from apply_strategy_after_gate [OF 1 2 this assms(2)] l2 show ?thesis
    by simp
qed

lemma apply_strategy_single:
  assumes "length signal = 1" and "sr \<noteq> 0"
  shows "\<exists>out. apply_strategy sr signal strategy = Inr out \<and> length out = 100"
proof -
  from assms(1) have ne: "signal \<noteq> []"
    by auto
  from first_stage_returns [OF ne, of strategy] obtain p1 where
    1: "(if noise_suppression_strength strategy > 0
         then apply_noise_suppression signal (noise_suppression_strength strategy)
         else Inr signal) = Inr p1" and l1: "length p1 = length signal"
    by blast
  from assms(1) l1 have "length p1 = 1"
    by simp
  from apply_noise_gate_single [OF this, of "noise_gate_threshold strategy"] obtain p2 where
    2: "apply_noise_gate p1 (noise_gate_threshold strategy) = Inr p2" and l2: "length p2 = 100"
    by auto
  from l2 have "50 \<le> length p2"
    by simp
  from apply_strategy_after_gate [OF 1 2 this assms(2)] l2 show ?thesis
    by auto
qed

lemma apply_strategy_short:
  assumes "1 < length signal" and "length signal < 100"
  shows "apply_strategy sr signal strategy = Inl ValueError"
proof -
  from assms(1) have ne: "signal \<noteq> []"
    by auto
  from first_stage_returns [OF ne, of strategy] obtain p1 where
    1: "(if noise_suppression_strength strategy > 0
         then apply_noise_suppression signal (noise_suppression_strength strategy)
         else Inr signal) = Inr p1" and l1: "length p1 = length signal"
    by blast
  from assms l1 have "1 < length p1" and "length p1 < 100"
    by simp_all
  then have 2: "apply_noise_gate p1 (noise_gate_threshold strategy) = Inl ValueError"
    by (rule apply_noise_gate_short)
  show ?thesis
    unfolding apply_strategy_def 1 2 ebind_def sum.case ..
qed

text \<open>
  Claim C2. The claim holds for waveforms of at least 100 samples
  (\<open>apply_strategy_same_length_clipped\<close>) and fails below: the noise gate smooths its mask
  with \<open>np.convolve(gate, np.ones(100) / 100, mode='same')\<close>, whose result has the length
  of the longer operand. For 2 to 99 samples the product \<open>signal * gate\<close> cannot be
  broadcast and raises \<open>ValueError\<close>; a single sample is broadcast to 100 samples.
\<close>

theorem apply_strategy_fails_on_short_waveform:
  "apply_strategy 16000 [0.5, 0.25] quiet_office = Inl ValueError
   \<and> (\<exists>out. apply_strategy 16000 [0.5] quiet_office = Inr out \<and> length out = 100)"
proof
  show "apply_strategy 16000 [0.5, 0.25] quiet_office = Inl ValueError"
    by (rule apply_strategy_short) simp_all
  show "\<exists>out. apply_strategy 16000 [0.5] quiet_office = Inr out \<and> length out = 100"
    by (rule apply_strategy_single) simp_all
qed

end
